theory Spec2Isabelle
  imports Complex_Main "HOL-Library.Multiset" "HOL-Library.AList"
begin

section \<open>JavaScript values and coercions used by the quiz application\<close>

text \<open>
  A JavaScript number is a finite value, one of the two infinities, or NaN. Finite
  values are kept as exact rationals: rounding to the nearest double, overflow to an
  infinity and the sign of zero are outside the model.
\<close>

datatype jsnum = NaN | PosInf | NegInf | Fin rat

text \<open>
  The primitive values a document field can hold. \<open>JUndefined\<close> is what reading an
  absent field gives.
\<close>

datatype jsval = JUndefined | JNull | JBool bool | JNum jsnum | JStr string

text \<open>The nullish coalescing operator \<^verbatim>\<open>a ?? b\<close>.\<close>

definition nullish :: "jsval \<Rightarrow> jsval \<Rightarrow> jsval" where
  "nullish a b = (case a of JUndefined \<Rightarrow> b | JNull \<Rightarrow> b | _ \<Rightarrow> a)"

subsection \<open>\<^verbatim>\<open>Number(string)\<close>\<close>

text \<open>
  White space is stripped at both ends; the empty string is 0; then the text is a
  prefixed integer (\<^verbatim>\<open>0x\<close>, \<^verbatim>\<open>0o\<close>, \<^verbatim>\<open>0b\<close>, unsigned), the word
  \<^verbatim>\<open>Infinity\<close> or a decimal literal with optional sign, fraction and exponent.
  Anything else is NaN.
\<close>

definition is_ws :: "char \<Rightarrow> bool" where
  "is_ws c = (c \<in> set [CHR 0x20, CHR 0x09, CHR 0x0A, CHR 0x0B, CHR 0x0C, CHR 0x0D, CHR 0xA0])"

definition trim :: "string \<Rightarrow> string" where
  "trim s = rev (dropWhile is_ws (rev (dropWhile is_ws s)))"

definition digit_of :: "char \<Rightarrow> nat option" where
  "digit_of c =
     (let n = (of_char c :: nat)
      in if 48 \<le> n \<and> n \<le> 57 then Some (n - 48)
         else if 97 \<le> n \<and> n \<le> 102 then Some (n - 87)
         else if 65 \<le> n \<and> n \<le> 70 then Some (n - 55)
         else None)"

fun digits_value :: "nat \<Rightarrow> nat \<Rightarrow> string \<Rightarrow> nat option" where
  "digits_value b acc [] = Some acc"
| "digits_value b acc (c # cs) =
     (case digit_of c of
        None \<Rightarrow> None
      | Some d \<Rightarrow> if d < b then digits_value b (acc * b + d) cs else None)"

definition numeral_in :: "nat \<Rightarrow> string \<Rightarrow> nat option" where
  "numeral_in b s = (if s = [] then None else digits_value b 0 s)"

definition opt_digits :: "string \<Rightarrow> nat option" where
  "opt_digits s = digits_value 10 0 s"

definition split_sign :: "string \<Rightarrow> bool \<times> string" where
  "split_sign s =
     (case s of
        c # cs \<Rightarrow> if c = CHR ''-'' then (True, cs) else if c = CHR ''+'' then (False, cs) else (False, s)
      | [] \<Rightarrow> (False, s))"

definition split_at :: "(char \<Rightarrow> bool) \<Rightarrow> string \<Rightarrow> string \<times> string option" where
  "split_at p s =
     (case dropWhile (\<lambda>c. \<not> p c) s of
        [] \<Rightarrow> (s, None)
      | _ # rest \<Rightarrow> (takeWhile (\<lambda>c. \<not> p c) s, Some rest))"

definition exponent_value :: "string option \<Rightarrow> int option" where
  "exponent_value e =
     (case e of
        None \<Rightarrow> Some 0
      | Some t \<Rightarrow>
          (case split_sign t of (neg, ds) \<Rightarrow>
             (case numeral_in 10 ds of
                None \<Rightarrow> None
              | Some n \<Rightarrow> Some (if neg then - int n else int n))))"

definition mantissa_value :: "string \<Rightarrow> rat option" where
  "mantissa_value m =
     (case split_at (\<lambda>c. c = CHR ''.'') m of (ip, fp) \<Rightarrow>
        (let fs = (case fp of None \<Rightarrow> [] | Some f \<Rightarrow> f)
         in if ip = [] \<and> fs = [] then None
            else (case (opt_digits ip, opt_digits fs) of
                    (Some i, Some f) \<Rightarrow> Some (of_nat i + of_nat f / 10 ^ length fs)
                  | _ \<Rightarrow> None)))"

definition decimal_literal :: "string \<Rightarrow> jsnum" where
  "decimal_literal s =
     (case split_sign s of (neg, body) \<Rightarrow>
        if body = ''Infinity'' then (if neg then NegInf else PosInf)
        else (case split_at (\<lambda>c. c = CHR ''e'' \<or> c = CHR ''E'') body of (m, e) \<Rightarrow>
                (case (mantissa_value m, exponent_value e) of
                   (Some v, Some x) \<Rightarrow>
                     (let w = (if 0 \<le> x then v * 10 ^ nat x else v / 10 ^ nat (- x))
                      in Fin (if neg then - w else w))
                 | _ \<Rightarrow> NaN)))"

definition prefixed_literal :: "string \<Rightarrow> jsnum option" where
  "prefixed_literal s =
     (case s of
        z # p # ds \<Rightarrow>
          if z \<noteq> CHR ''0'' then None
          else (let base = (if p = CHR ''x'' \<or> p = CHR ''X'' then Some (16::nat)
                            else if p = CHR ''o'' \<or> p = CHR ''O'' then Some 8
                            else if p = CHR ''b'' \<or> p = CHR ''B'' then Some 2
                            else None)
                in (case base of
                      None \<Rightarrow> None
                    | Some b \<Rightarrow>
                        Some (case numeral_in b ds of None \<Rightarrow> NaN | Some n \<Rightarrow> Fin (of_nat n))))
      | _ \<Rightarrow> None)"

definition string_to_number :: "string \<Rightarrow> jsnum" where
  "string_to_number s =
     (let t = trim s
      in if t = [] then Fin 0
         else (case prefixed_literal t of
                 Some n \<Rightarrow> n
               | None \<Rightarrow> decimal_literal t))"

text \<open>\<^verbatim>\<open>Number(v)\<close> on a primitive value.\<close>

definition to_number :: "jsval \<Rightarrow> jsnum" where
  "to_number v =
     (case v of
        JUndefined \<Rightarrow> NaN
      | JNull \<Rightarrow> Fin 0
      | JBool b \<Rightarrow> Fin (if b then 1 else 0)
      | JNum n \<Rightarrow> n
      | JStr s \<Rightarrow> string_to_number s)"

section \<open>Data model\<close>

text \<open>
  Quizzes and their questions, as the documents of the \<^verbatim>\<open>quizzes\<close> collection give
  them. \<open>quiz_id\<close> is the document id. \<open>maxAttempts\<close> is kept as the value found
  in the document, since the code coerces it.
\<close>

record question =
  q_id :: "string option"
  q_text :: "string option"
  showFeedback :: bool

record quiz =
  quiz_id :: string
  title :: "string option"
  classId :: "string option"
  className :: "string option"
  isLocked :: bool
  maxAttempts :: jsval
  prefillFromLastAttempt :: bool
  allowShuffle :: bool
  questions :: "question list option"

text \<open>
  An answer map is a JavaScript object from question id to answer text. Its keys are
  kept in insertion order, as \<^verbatim>\<open>Object.keys\<close> lists them.
\<close>

type_synonym answer_map = "(string \<times> string) list"

record evaluation =
  isCorrect :: bool
  feedback :: string

type_synonym evaluation_map = "string \<rightharpoonup> evaluation"

text \<open>
  A document of the \<^verbatim>\<open>submissions\<close> collection. Every field the code reads with a
  default is optional. \<open>quizId\<close> is the id of a quiz document. \<open>attemptNumber\<close> is a
  natural number, as \<^verbatim>\<open>submitQuiz\<close> writes it (the count of earlier attempts plus
  one), or absent, as in documents written before attempts were numbered.
  \<open>attemptedAt\<close> holds the instant the stored ISO text denotes, in milliseconds since
  the epoch, which is what \<^verbatim>\<open>new Date(text).getTime()\<close> gives; texts that are not dates
  are outside the model. \<open>sub_id\<close> is the document id.
\<close>

record submission =
  sub_id :: string
  quizId :: "string option"
  quizTitle :: "string option"
  s_classId :: string
  s_className :: string
  studentId :: string
  studentEmail :: string
  studentName :: string
  answers :: "answer_map option"
  evaluations :: "evaluation_map option"
  gradeStatus :: string
  attemptNumber :: "nat option"
  maxAttemptsAtSubmission :: int
  attemptedAt :: "int option"

text \<open>Truthiness of an optional string: absent and empty are falsy.\<close>

definition truthy :: "string option \<Rightarrow> bool" where
  "truthy s = (case s of None \<Rightarrow> False | Some t \<Rightarrow> t \<noteq> [])"

text \<open>\<^verbatim>\<open>Number(data.attemptNumber || 0)\<close>.\<close>

definition attempt_no :: "submission \<Rightarrow> nat" where
  "attempt_no d = (case attemptNumber d of None \<Rightarrow> 0 | Some n \<Rightarrow> if n = 0 then 0 else n)"

text \<open>\<^verbatim>\<open>new Date(a.attemptedAt || 0).getTime()\<close>.\<close>

definition attempt_time :: "submission \<Rightarrow> int" where
  "attempt_time d = (case attemptedAt d of None \<Rightarrow> 0 | Some t \<Rightarrow> t)"

text \<open>\<^verbatim>\<open>data.answers || {}\<close> and \<^verbatim>\<open>data.evaluations || {}\<close>.\<close>

definition answers_or_empty :: "submission \<Rightarrow> answer_map" where
  "answers_or_empty d = (case answers d of None \<Rightarrow> [] | Some a \<Rightarrow> a)"

definition evaluations_or_empty :: "submission \<Rightarrow> evaluation_map" where
  "evaluations_or_empty d = (case evaluations d of None \<Rightarrow> Map.empty | Some v \<Rightarrow> v)"

section \<open>Attempt ledger: the per-quiz summary of \<^verbatim>\<open>useStudentSubmissions\<close>\<close>

text \<open>
  The entry kept per quiz. The type of \<open>latestAnswers\<close> is a parameter: the hook
  builds entries holding the answer map itself, the component state holds a reference
  to it.
\<close>

record 'a quiz_summary =
  count :: nat
  latestAttemptNumber :: nat
  latestAnswers :: 'a
  latestEvaluations :: evaluation_map

text \<open>
  The body of \<^verbatim>\<open>snap.docs.forEach\<close> in the snapshot callback. \<open>nextSummary\<close> is
  the object being built, a map from quiz ids to entries.
\<close>

definition summary_step ::
  "(string \<rightharpoonup> answer_map quiz_summary) \<Rightarrow> submission \<Rightarrow> (string \<rightharpoonup> answer_map quiz_summary)" where
  "summary_step nextSummary data =
     (if \<not> truthy (quizId data) then nextSummary
      else
        (let q = the (quizId data);
             n = attempt_no data;
             e0 = (case nextSummary q of
                     None \<Rightarrow> \<lparr>count = 0, latestAttemptNumber = 0, latestAnswers = [],
                               latestEvaluations = Map.empty\<rparr>
                   | Some e \<Rightarrow> e);
             e1 = e0\<lparr>count := count e0 + 1\<rparr>;
             e2 = (if n \<ge> latestAttemptNumber e1
                   then e1\<lparr>latestAttemptNumber := n,
                           latestAnswers := answers_or_empty data,
                           latestEvaluations := evaluations_or_empty data\<rparr>
                   else e1)
         in nextSummary(q \<mapsto> e2)))"

definition useStudentSubmissions :: "submission list \<Rightarrow> (string \<rightharpoonup> answer_map quiz_summary)" where
  "useStudentSubmissions docs = foldl summary_step Map.empty docs"

section \<open>Attempt policy (student view)\<close>

text \<open>
  \<^verbatim>\<open>getMaxAttempts\<close>: \<^verbatim>\<open>raw = Number(quiz?.maxAttempts ?? 1)\<close>, then
  \<^verbatim>\<open>Number.isFinite(raw) && raw > 0 ? Math.floor(raw) : 1\<close>. The result is always
  an integer, so it is given the type \<open>int\<close>.
\<close>

definition getMaxAttempts :: "quiz \<Rightarrow> int" where
  "getMaxAttempts quiz =
     (let raw = to_number (nullish (maxAttempts quiz) (JNum (Fin 1)))
      in (case raw of
            Fin r \<Rightarrow> if r > 0 then \<lfloor>r\<rfloor> else 1
          | _ \<Rightarrow> 1))"

record attempt_info =
  info_maxAttempts :: int
  usedAttempts :: nat
  remainingAttempts :: int

text \<open>
  \<^verbatim>\<open>getAttemptInfo\<close>: \<^verbatim>\<open>usedAttempts = submissionSummary?.[quiz.id]?.count || 0\<close>,
  \<^verbatim>\<open>remainingAttempts = Math.max(0, maxAttempts - usedAttempts)\<close>.
\<close>

definition getAttemptInfo :: "quiz \<Rightarrow> (string \<rightharpoonup> 'a quiz_summary) \<Rightarrow> attempt_info" where
  "getAttemptInfo quiz submissionSummary =
     (let m = getMaxAttempts quiz;
          u = (case submissionSummary (quiz_id quiz) of None \<Rightarrow> 0 | Some e \<Rightarrow> count e)
      in \<lparr>info_maxAttempts = m, usedAttempts = u, remainingAttempts = max 0 (m - int u)\<rparr>)"

section \<open>Attempt history: sorting and grouping\<close>

text \<open>
  The comparator shared by \<^verbatim>\<open>useStudentAttempts\<close> and \<^verbatim>\<open>attemptsByQuiz\<close>:
  the difference of the attempt numbers of \<open>b\<close> and \<open>a\<close>, and, when that is zero,
  the difference of their times.
\<close>

definition attempt_cmp :: "submission \<Rightarrow> submission \<Rightarrow> int" where
  "attempt_cmp a b =
     (let attemptDelta = int (attempt_no b) - int (attempt_no a)
      in if attemptDelta \<noteq> 0 then attemptDelta
         else attempt_time b - attempt_time a)"

text \<open>
  \<^verbatim>\<open>Array.prototype.sort\<close> with a comparator is a stable sort: \<open>b\<close> goes before
  \<open>a\<close> exactly when the comparator is positive on \<open>(a, b)\<close>. It is modelled by a
  stable insertion sort.
\<close>

fun insert_by :: "('a \<Rightarrow> 'a \<Rightarrow> int) \<Rightarrow> 'a \<Rightarrow> 'a list \<Rightarrow> 'a list" where
  "insert_by cmp x [] = [x]"
| "insert_by cmp x (y # ys) = (if cmp x y \<le> 0 then x # y # ys else y # insert_by cmp x ys)"

definition js_sort :: "('a \<Rightarrow> 'a \<Rightarrow> int) \<Rightarrow> 'a list \<Rightarrow> 'a list" where
  "js_sort cmp xs = foldr (insert_by cmp) xs []"


text \<open>
  \<^verbatim>\<open>attemptsByQuiz\<close>: the attempts are appended to the group of their quiz id
  (attempts without one are left out), then every group is sorted.
\<close>

definition group_step ::
  "(string \<rightharpoonup> submission list) \<Rightarrow> submission \<Rightarrow> (string \<rightharpoonup> submission list)" where
  "group_step grouped attempt =
     (if \<not> truthy (quizId attempt) then grouped
      else
        (let q = the (quizId attempt)
         in grouped(q \<mapsto> (case grouped q of None \<Rightarrow> [] | Some l \<Rightarrow> l) @ [attempt])))"

definition attemptsByQuiz :: "submission list \<Rightarrow> (string \<rightharpoonup> submission list)" where
  "attemptsByQuiz submissionHistory =
     (\<lambda>q. map_option (js_sort attempt_cmp) (foldl group_step Map.empty submissionHistory q))"

section \<open>Notions used to state the properties of the ledger\<close>

text \<open>The entry of a quiz before its first record is seen.\<close>

definition entry_or_new :: "answer_map quiz_summary option \<Rightarrow> answer_map quiz_summary" where
  "entry_or_new e = (case e of None \<Rightarrow> \<lparr>count = 0, latestAttemptNumber = 0, latestAnswers = [], latestEvaluations = Map.empty\<rparr> | Some x \<Rightarrow> x)"

text \<open>
  \<open>latest_at xs q i\<close>: record \<open>i\<close> of \<open>xs\<close> belongs to quiz \<open>q\<close>, no record of
  \<open>q\<close> has a larger attempt number, and none with the same attempt number comes after
  it. \<open>snapshot_of e d\<close>: the three "latest" fields of the entry \<open>e\<close> are those of
  the record \<open>d\<close>. Both are stated on the fields of the documents, an absent
  attempt number counting as 0 and absent answers or evaluations as the empty map.
\<close>

definition latest_at :: "submission list \<Rightarrow> string \<Rightarrow> nat \<Rightarrow> bool" where
  "latest_at xs q i =
     (i < length xs \<and> quizId (xs ! i) = Some q \<and>
      (\<forall>j<length xs. quizId (xs ! j) = Some q \<longrightarrow>
         (case attemptNumber (xs ! j) of None \<Rightarrow> 0 | Some n \<Rightarrow> n) \<le> 
           (case attemptNumber (xs ! i) of None \<Rightarrow> 0 | Some n \<Rightarrow> n) \<and>
         ((case attemptNumber (xs ! j) of None \<Rightarrow> 0 | Some n \<Rightarrow> n) = 
            (case attemptNumber (xs ! i) of None \<Rightarrow> 0 | Some n \<Rightarrow> n)
            \<longrightarrow> j \<le> i)))"

definition snapshot_of :: "answer_map quiz_summary \<Rightarrow> submission \<Rightarrow> bool" where
  "snapshot_of e d =
     (latestAttemptNumber e = (case attemptNumber d of None \<Rightarrow> 0 | Some n \<Rightarrow> n) \<and>
      latestAnswers e = (case answers d of None \<Rightarrow> [] | Some a \<Rightarrow> a) \<and>
      latestEvaluations e = (case evaluations d of None \<Rightarrow> Map.empty | Some v \<Rightarrow> v))"


section \<open>The student view: starting, answering and submitting a quiz\<close>

text \<open>\<^verbatim>\<open>a || b\<close> on optional strings.\<close>

definition or_str :: "string option \<Rightarrow> string \<Rightarrow> string" where
  "or_str a b = (if truthy a then the a else b)"

definition questions_or_empty :: "quiz \<Rightarrow> question list" where
  "questions_or_empty quiz = (case questions quiz of None \<Rightarrow> [] | Some qs \<Rightarrow> qs)"

record app_user =
  uid :: string
  email :: "string option"
  displayName :: "string option"

subsection \<open>The grading call of \<^verbatim>\<open>aiService.js\<close>\<close>

text \<open>
  The body posted to the grading function, and what the \<^verbatim>\<open>fetch\<close> can end in: it
  throws, or it gives a response with its \<^verbatim>\<open>ok\<close> flag and a body that is not JSON, is
  JSON \<^verbatim>\<open>null\<close>, or is an object whose \<^verbatim>\<open>evaluations\<close> property, when truthy, is an
  evaluation map.
\<close>

record grade_request =
  r_quizTitle :: "string option"
  r_questions :: "question list option"
  r_studentAnswers :: "answer_map option"

datatype json_body = NotJson | JsonNull | JsonObject "evaluation_map option"

datatype fetch_outcome = FetchThrows | Response bool json_body

record grading_data =
  gd_evaluations :: "evaluation_map option"

definition grading_failed_alert :: string where
  "grading_failed_alert = ''Grading failed. Please try again or contact the instructor.''"

text \<open>
  \<^verbatim>\<open>gradeSubmission\<close> returns the parsed response, or \<^verbatim>\<open>null\<close> after an alert when
  the fetch throws, the status is not ok or the body is not JSON. The alerts it raises
  are returned with the result.
\<close>

definition gradeSubmission ::
  "(grade_request \<Rightarrow> fetch_outcome) \<Rightarrow> quiz \<Rightarrow> answer_map \<Rightarrow> string list \<times> grading_data option" where
  "gradeSubmission fetch quiz ans =
     (case fetch \<lparr>r_quizTitle = title quiz, r_questions = questions quiz,
                  r_studentAnswers = Some ans\<rparr> of
        FetchThrows \<Rightarrow> ([grading_failed_alert], None)
      | Response ok body \<Rightarrow>
          if \<not> ok then ([grading_failed_alert], None)
          else (case body of
                  NotJson \<Rightarrow> ([grading_failed_alert], None)
                | JsonNull \<Rightarrow> ([], None)
                | JsonObject ev \<Rightarrow> ([], Some \<lparr>gd_evaluations = ev\<rparr>)))"

subsection \<open>Component state\<close>

text \<open>
  Answer maps are objects: the state holds references into a store of objects, a list
  indexed by address. The summary entries hold the address of their \<open>latestAnswers\<close>
  object. \<open>alerts\<close> collects the \<^verbatim>\<open>alert\<close> calls and \<open>store\<close> is the
  \<^verbatim>\<open>submissions\<close> collection.
\<close>

record student_view =
  user :: app_user
  selectedClass :: "string option"
  submissionSummary :: "string \<rightharpoonup> nat quiz_summary"
  heap :: "answer_map list"
  view :: string
  activeQuiz :: "quiz option"
  activeHistoryAttempt :: "submission option"
  studentAnswers :: nat
  gradingResult :: "evaluation_map option"
  isSubmitting :: bool
  viewingResult :: bool
  shuffledQuestions :: "question list"
  alerts :: "string list"
  store :: "submission list"

text \<open>A new object gets the next free address.\<close>

definition alloc :: "answer_map list \<Rightarrow> answer_map \<Rightarrow> nat \<times> answer_map list" where
  "alloc h obj = (length h, h @ [obj])"

subsection \<open>\<^verbatim>\<open>buildFallbackEvaluations\<close>\<close>

definition fallback_feedback :: string where
  "fallback_feedback = ''AI grading is unavailable. Your answer was saved and needs teacher review.''"

text \<open>The body of the \<^verbatim>\<open>forEach\<close>: a question without an id is passed over.\<close>

definition fallback_step :: "evaluation_map \<Rightarrow> question \<Rightarrow> evaluation_map" where
  "fallback_step fallback question =
     (if \<not> truthy (q_id question) then fallback
      else fallback(the (q_id question) \<mapsto>
             \<lparr>isCorrect = False, feedback = fallback_feedback\<rparr>))"

definition buildFallbackEvaluations :: "quiz \<Rightarrow> evaluation_map" where
  "buildFallbackEvaluations quiz = foldl fallback_step Map.empty (questions_or_empty quiz)"

subsection \<open>\<^verbatim>\<open>startQuiz\<close> and \<^verbatim>\<open>handleAnswerChange\<close>\<close>

text \<open>
  \<^verbatim>\<open>latestAnswers = submissionSummary?.[quiz.id]?.latestAnswers || {}\<close> is the object
  of the summary entry, or a new empty object without an entry; the state gets
  \<^verbatim>\<open>quiz.prefillFromLastAttempt ? latestAnswers : {}\<close>. The random order of a shuffled
  quiz is the parameter \<open>shuffle\<close>.
\<close>

definition startQuiz ::
  "(question list \<Rightarrow> question list) \<Rightarrow> student_view \<Rightarrow> quiz \<Rightarrow> student_view" where
  "startQuiz shuffle s quiz =
     (if remainingAttempts (getAttemptInfo quiz (submissionSummary s)) \<le> 0
      then s\<lparr>alerts := alerts s @ [''No attempts remaining for this quiz.'']\<rparr>
      else
        (case (case submissionSummary s (quiz_id quiz) of
                 Some e \<Rightarrow> (latestAnswers e, heap s)
               | None \<Rightarrow> alloc (heap s) []) of
           (latest, h1) \<Rightarrow>
             (case (if prefillFromLastAttempt quiz then (latest, h1) else alloc h1 []) of
                (initial, h2) \<Rightarrow>
                  s\<lparr>heap := h2,
                    activeQuiz := Some quiz,
                    studentAnswers := initial,
                    gradingResult := None,
                    viewingResult := False,
                    activeHistoryAttempt := None,
                    shuffledQuestions :=
                      (if allowShuffle quiz then shuffle (questions_or_empty quiz)
                       else questions_or_empty quiz),
                    view := ''quiz''\<rparr>)))"

text \<open>
  \<^verbatim>\<open>setStudentAnswers((prev) => ({ ...prev, [questionId]: value }))\<close>: a new object
  with the entries of the previous one and the changed answer.
\<close>

definition handleAnswerChange :: "student_view \<Rightarrow> string \<Rightarrow> string \<Rightarrow> student_view" where
  "handleAnswerChange s questionId v =
     (case alloc (heap s) (AList.update questionId v (heap s ! studentAnswers s)) of
        (a, h) \<Rightarrow> s\<lparr>heap := h, studentAnswers := a\<rparr>)"

subsection \<open>\<^verbatim>\<open>submitQuiz\<close>\<close>

text \<open>
  What one submission meets outside the component: the answer to the confirmation
  dialog, the network, the document store (\<open>addDoc_id\<close> is the id of the new document,
  or \<open>None\<close> when \<^verbatim>\<open>addDoc\<close> throws) and the clock.
\<close>

record submit_env =
  confirm_submit :: bool
  fetch :: "grade_request \<Rightarrow> fetch_outcome"
  addDoc_id :: "string option"
  now :: int

text \<open>\<^verbatim>\<open>gradingData?.evaluations\<close>.\<close>

definition graded_evaluations :: "grading_data option \<Rightarrow> evaluation_map option" where
  "graded_evaluations gradingData =
     (case gradingData of None \<Rightarrow> None | Some gd \<Rightarrow> gd_evaluations gd)"

definition answeredCount :: "answer_map \<Rightarrow> nat" where
  "answeredCount sa =
     length (filter (\<lambda>key. trim (case map_of sa key of None \<Rightarrow> [] | Some v \<Rightarrow> v) \<noteq> [])
               (map fst sa))"

definition submitQuiz :: "submit_env \<Rightarrow> student_view \<Rightarrow> student_view" where
  "submitQuiz env s =
     (case activeQuiz s of
        None \<Rightarrow> s
      | Some quiz \<Rightarrow>
          if isSubmitting s then s
          else
            (let info = getAttemptInfo quiz (submissionSummary s)
             in if remainingAttempts info \<le> 0
                then s\<lparr>alerts := alerts s @ [''Attempt limit reached for this quiz.'']\<rparr>
                else
                  (let sa = heap s ! studentAnswers s
                   in if answeredCount sa < length (questions_or_empty quiz) \<and> \<not> confirm_submit env
                      then s
                      else
                        (case gradeSubmission (fetch env) quiz sa of
                           (raised, gradingData) \<Rightarrow>
                             (let graded = graded_evaluations gradingData;
                                  evals = (case graded of
                                             Some ev \<Rightarrow> ev
                                           | None \<Rightarrow> buildFallbackEvaluations quiz);
                                  status = (if graded \<noteq> None then ''graded''
                                            else ''needs_teacher_review'');
                                  s1 = s\<lparr>isSubmitting := True, viewingResult := False,
                                         alerts := alerts s @ raised\<rparr>
                              in (case addDoc_id env of
                                    None \<Rightarrow>
                                      s1\<lparr>alerts := alerts s1 @
                                             [''Your answers could not be saved. Please retry.''],
                                          isSubmitting := False\<rparr>
                                  | Some new_id \<Rightarrow>
                                      s1\<lparr>store := store s1 @
                                            [\<lparr>sub_id = new_id,
                                              quizId = Some (quiz_id quiz),
                                              quizTitle = title quiz,
                                              s_classId = or_str (classId quiz) [],
                                              s_className =
                                                or_str (className quiz) (or_str (selectedClass s) []),
                                              studentId = uid (user s),
                                              studentEmail = or_str (email (user s)) [],
                                              studentName =
                                                or_str (displayName (user s))
                                                  (or_str (email (user s)) []),
                                              answers = Some sa,
                                              evaluations = Some evals,
                                              gradeStatus = status,
                                              attemptNumber = Some (usedAttempts info + 1),
                                              maxAttemptsAtSubmission = info_maxAttempts info,
                                              attemptedAt = Some (now env)\<rparr>],
                                          gradingResult := Some evals,
                                          viewingResult := True,
                                          view := ''results'',
                                          isSubmitting := False\<rparr>))))))"

text \<open>A sequence of answer changes, one call of \<^verbatim>\<open>handleAnswerChange\<close> each.\<close>

definition answer_changes :: "student_view \<Rightarrow> (string \<times> string) list \<Rightarrow> student_view" where
  "answer_changes s cs = foldl (\<lambda>t (k, v). handleAnswerChange t k v) s cs"

section \<open>The grading function \<^verbatim>\<open>gradeQuiz.js\<close>\<close>

subsection \<open>Data of the handler\<close>

text \<open>
  A call of a model ends in a text or in an error with a status (the \<^verbatim>\<open>status\<close> or
  \<^verbatim>\<open>code\<close> of the error, when it is a number) and a message; a timeout is such an
  error.
\<close>

datatype model_outcome = ModelText string | ModelFails "nat option" string

text \<open>
  \<^verbatim>\<open>JSON.parse\<close> on the text of the model is a parameter of the handler: it throws, or
  it returns a value, of which the handler asks whether it is truthy, whether its
  \<^verbatim>\<open>evaluations\<close> property is truthy, and its JSON text.
\<close>

record parsed_data =
  pd_truthy :: bool
  pd_evaluations :: bool
  pd_json :: string

datatype parse_result = ParseThrows string | ParseReturns parsed_data

text \<open>
  The event carries the HTTP method and the body. The body is kept as what
  \<^verbatim>\<open>JSON.parse(event.body)\<close> makes of it: it throws with a message, or it gives
  \<^verbatim>\<open>null\<close>, or a value whose three properties are read.
\<close>

datatype request_body = BadJson string | NullBody | Body grade_request

record event =
  httpMethod :: string
  body :: request_body

record handler_env =
  GEMINI_API_KEY :: "string option"
  GEMINI_MODEL :: "string option"
  generate :: "string \<Rightarrow> string \<Rightarrow> model_outcome"
  json_parse :: "string \<Rightarrow> parse_result"

datatype response_body = ErrorJson string | PlainText string | JsonText string

record http_response =
  statusCode :: nat
  resp_body :: response_body

text \<open>The interpolated parts of the prompt: the title and one entry per question.\<close>

record prompt_entry =
  e_id :: string
  e_question :: string
  e_answer :: string

record prompt_parts =
  p_title :: string
  p_entries :: "prompt_entry list"

subsection \<open>Truncation and the prompt\<close>

text \<open>
  \<^verbatim>\<open>truncate(value, max)\<close>: \<^verbatim>\<open>text = String(value || "")\<close>, cut to \<open>max\<close>
  characters and followed by three dots when it is longer. A string is the list of its
  UTF-16 code units, which is what \<^verbatim>\<open>length\<close> and \<^verbatim>\<open>slice\<close> count.
\<close>

definition text_of :: "string option \<Rightarrow> string" where
  "text_of v = (case v of None \<Rightarrow> [] | Some t \<Rightarrow> t)"

definition truncate :: "string option \<Rightarrow> nat \<Rightarrow> string" where
  "truncate v mx =
     (let text = text_of v
      in if length text > mx then take mx text @ ''...'' else text)"

text \<open>\<^verbatim>\<open>${q.id}\<close> in a template, and as a property key: an absent id reads \<open>undefined\<close>.\<close>

definition id_text :: "question \<Rightarrow> string" where
  "id_text q = (case q_id q of None \<Rightarrow> ''undefined'' | Some i \<Rightarrow> i)"

text \<open>
  The interpolated parts of the prompt. \<^verbatim>\<open>safeQuestions\<close> is the first 20 questions,
  or nothing when \<^verbatim>\<open>questions\<close> is not an array. Reading \<^verbatim>\<open>studentAnswers[q.id]\<close>
  throws when there is a question and \<^verbatim>\<open>studentAnswers\<close> is absent.
\<close>

definition safe_questions :: "grade_request \<Rightarrow> question list" where
  "safe_questions data = (case r_questions data of None \<Rightarrow> [] | Some qs \<Rightarrow> take 20 qs)"

definition prompt_entry_of :: "answer_map \<Rightarrow> question \<Rightarrow> prompt_entry" where
  "prompt_entry_of sa q =
     \<lparr>e_id = id_text q,
      e_question = truncate (q_text q) 1200,
      e_answer = truncate (Some (or_str (map_of sa (id_text q)) ''No answer provided'')) 1200\<rparr>"

definition build_prompt :: "grade_request \<Rightarrow> string + prompt_parts" where
  "build_prompt data =
     (let t = truncate (r_quizTitle data) 200
      in (case r_studentAnswers data of
            None \<Rightarrow>
              if safe_questions data = [] then Inr \<lparr>p_title = t, p_entries = []\<rparr>
              else Inl ''Cannot read properties of undefined''
          | Some sa \<Rightarrow>
              Inr \<lparr>p_title = t, p_entries = map (prompt_entry_of sa) (safe_questions data)\<rparr>))"

definition nl :: string where
  "nl = [CHR 0x0A]"

definition dq :: string where
  "dq = [CHR 0x22]"

definition join :: "string \<Rightarrow> string list \<Rightarrow> string" where
  "join sep xs = (case xs of [] \<Rightarrow> [] | y # ys \<Rightarrow> y @ concat (map (\<lambda>z. sep @ z) ys))"

definition render_entry :: "prompt_entry \<Rightarrow> string" where
  "render_entry e =
     nl @ ''        [ID: '' @ dq @ e_id e @ dq @ '']'' @
     nl @ ''        Question: '' @ e_question e @
     nl @ ''        Student Answer: '' @ e_answer e @
     nl @ ''      ''"

definition render_prompt :: "prompt_parts \<Rightarrow> string" where
  "render_prompt p =
     nl @ ''      You are a math teacher grading a quiz.'' @
     nl @ ''      Quiz Title: '' @ p_title p @
     nl @
     nl @ ''      Questions & Student Answers:'' @
     nl @ ''      '' @ join (nl @ ''----------------'' @ nl) (map render_entry (p_entries p)) @
     nl @
     nl @ ''      INSTRUCTIONS:'' @
     nl @ ''      1. Check if the math is correct. Implicit multiplication and LaTeX variations are allowed.'' @
     nl @ ''      2. If answer is blank/empty, it is incorrect.'' @
     nl @ ''      3. Return ONLY valid JSON. The keys MUST match the Question IDs exactly.'' @
     nl @ ''      '' @
     nl @ ''      Structure:'' @
     nl @ ''      {'' @
     nl @ ''        '' @ dq @ ''evaluations'' @ dq @ '': {'' @
     nl @ ''          '' @ dq @ ''QUESTION_ID'' @ dq @ '': { '' @ dq @ ''isCorrect'' @ dq @
            '': boolean, '' @ dq @ ''feedback'' @ dq @ '': '' @ dq @ ''Brief feedback string'' @ dq @ '' }'' @
     nl @ ''        }'' @
     nl @ ''      }'' @
     nl @ ''    ''"

subsection \<open>The model candidates\<close>

fun js_includes :: "string \<Rightarrow> string \<Rightarrow> bool" where
  "js_includes [] t = (t = [])"
| "js_includes (c # cs) t = (take (length t) (c # cs) = t \<or> js_includes cs t)"

definition to_lower :: "string \<Rightarrow> string" where
  "to_lower s =
     map (\<lambda>c. if 65 \<le> (of_char c :: nat) \<and> (of_char c :: nat) \<le> 90
               then char_of ((of_char c :: nat) + 32) else c) s"

definition isNotFound :: "nat option \<Rightarrow> string \<Rightarrow> bool" where
  "isNotFound status message =
     (status = Some 404 \<or> js_includes message ''404'' \<or> js_includes (to_lower message) ''not found'')"

text \<open>
  The loop over the candidates: the first text ends it; an error that is not a "not
  found" is thrown at once; otherwise the next candidate is tried. The result is the
  thrown message, or the text, the model that gave it and the last error.
\<close>

fun try_models ::
  "(string \<Rightarrow> model_outcome) \<Rightarrow> string list \<Rightarrow> string option \<Rightarrow> string + (string \<times> string \<times> string option)" where
  "try_models call [] lastError = Inr ([], [], lastError)"
| "try_models call (modelName # rest) lastError =
     (case call modelName of
        ModelText t \<Rightarrow> Inr (t, modelName, lastError)
      | ModelFails status message \<Rightarrow>
          if isNotFound status message then try_models call rest (Some message)
          else Inl message)"

subsection \<open>Reading the answer of the model\<close>

fun strip_fences :: "string \<Rightarrow> string" where
  "strip_fences [] = []"
| "strip_fences (c # cs) =
     (if take 7 (c # cs) = ''```json'' then strip_fences (drop 6 cs)
      else if take 3 (c # cs) = ''```'' then strip_fences (drop 2 cs)
      else c # strip_fences cs)"

definition index_of :: "char \<Rightarrow> string \<Rightarrow> nat option" where
  "index_of c s = (if c \<in> set s then Some (length (takeWhile (\<lambda>x. x \<noteq> c) s)) else None)"

definition last_index_of :: "char \<Rightarrow> string \<Rightarrow> nat option" where
  "last_index_of c s =
     (if c \<in> set s then Some (length s - 1 - length (takeWhile (\<lambda>x. x \<noteq> c) (rev s))) else None)"

text \<open>\<^verbatim>\<open>substring(a, b)\<close> swaps its arguments when \<open>a > b\<close>.\<close>

definition substring :: "string \<Rightarrow> nat \<Rightarrow> nat \<Rightarrow> string" where
  "substring s a b = take (max a b - min a b) (drop (min a b) s)"

definition cleanJson :: "(string \<Rightarrow> parse_result) \<Rightarrow> string \<Rightarrow> parse_result option" where
  "cleanJson parse text =
     (let clean = strip_fences text
      in (case (index_of CHR ''{'' clean, last_index_of CHR ''}'' clean) of
            (Some firstOpen, Some lastClose) \<Rightarrow>
              Some (parse (substring clean firstOpen (lastClose + 1)))
          | _ \<Rightarrow> None))"

subsection \<open>The handler\<close>

text \<open>The \<^verbatim>\<open>catch\<close> of the handler.\<close>

definition grading_error :: "string \<Rightarrow> http_response" where
  "grading_error message =
     \<lparr>statusCode = 500,
      resp_body = ErrorJson (if message = [] then ''Unknown AI grading error'' else message)\<rparr>"

definition modelCandidates :: "handler_env \<Rightarrow> string list" where
  "modelCandidates env =
     (let configuredModel = or_str (GEMINI_MODEL env) ''gemini-2.0-flash-lite''
      in if configuredModel = ''gemini-2.0-flash'' then [configuredModel]
         else [configuredModel, ''gemini-2.0-flash''])"

definition unexpected_shape :: "string \<Rightarrow> string" where
  "unexpected_shape usedModel =
     ''Gemini returned non-JSON or unexpected JSON shape (model: '' @ usedModel @ '').''"

definition handler :: "handler_env \<Rightarrow> event \<Rightarrow> http_response" where
  "handler env ev =
     (if \<not> truthy (GEMINI_API_KEY env)
      then \<lparr>statusCode = 500, resp_body = ErrorJson ''Server Configuration Error''\<rparr>
      else if httpMethod ev \<noteq> ''POST''
      then \<lparr>statusCode = 405, resp_body = PlainText ''Method Not Allowed''\<rparr>
      else
        (case body ev of
           BadJson message \<Rightarrow> grading_error message
         | NullBody \<Rightarrow> grading_error ''Cannot destructure property of null''
         | Body data \<Rightarrow>
             (case build_prompt data of
                Inl message \<Rightarrow> grading_error message
              | Inr parts \<Rightarrow>
                  (case try_models (\<lambda>modelName. generate env modelName (render_prompt parts))
                          (modelCandidates env) None of
                     Inl message \<Rightarrow> grading_error message
                   | Inr (text, usedModel, lastError) \<Rightarrow>
                       if text = []
                       then grading_error
                              (''All model candidates failed. Last error: '' @
                               or_str lastError ''Unknown Gemini error'')
                       else
                         (case cleanJson (json_parse env) text of
                            None \<Rightarrow> grading_error (unexpected_shape usedModel)
                          | Some (ParseThrows message) \<Rightarrow> grading_error message
                          | Some (ParseReturns parsedData) \<Rightarrow>
                              if \<not> pd_truthy parsedData \<or> \<not> pd_evaluations parsedData
                              then grading_error (unexpected_shape usedModel)
                              else \<lparr>statusCode = 200,
                                    resp_body = JsonText (pd_json parsedData)\<rparr>)))))"

section \<open>Example data\<close>

text \<open>
  Submission documents of one student: a mixed sequence with two quizzes and two records
  without a usable quiz id; two attempts with the same number, of which the later has the
  earlier time, followed by an attempt with a smaller number and the latest time; two
  records from before attempts were numbered; and two attempts whose numbers and times
  disagree.
\<close>

definition attempt_doc :: "string option \<Rightarrow> nat option \<Rightarrow> int option \<Rightarrow> string \<Rightarrow> submission" where
  "attempt_doc q n t a =
     \<lparr>sub_id = a, quizId = q, quizTitle = None, s_classId = [], s_className = [],
      studentId = ''u1'', studentEmail = [], studentName = [],
      answers = Some [(''q-1'', a)], evaluations = None, gradeStatus = ''graded'',
      attemptNumber = n, maxAttemptsAtSubmission = 1, attemptedAt = t\<rparr>"

definition mixed_docs :: "submission list" where
  "mixed_docs =
     [attempt_doc (Some ''quizA'') (Some 1) (Some 100) ''a1'',
      attempt_doc None (Some 1) (Some 150) ''x'',
      attempt_doc (Some ''quizB'') (Some 1) (Some 200) ''b1'',
      attempt_doc (Some []) (Some 2) (Some 250) ''y'',
      attempt_doc (Some ''quizA'') (Some 2) (Some 300) ''a2'']"

text \<open>A submission document that carries evaluations.\<close>

definition graded_doc ::
  "string option \<Rightarrow> nat option \<Rightarrow> int option \<Rightarrow> string \<Rightarrow> bool \<Rightarrow> submission" where
  "graded_doc q n t a c =
     \<lparr>sub_id = a, quizId = q, quizTitle = None, s_classId = [], s_className = [],
      studentId = ''u1'', studentEmail = [], studentName = [],
      answers = Some [(''q-1'', a)],
      evaluations = Some [''q-1'' \<mapsto> \<lparr>isCorrect = c, feedback = a\<rparr>],
      gradeStatus = ''graded'',
      attemptNumber = n, maxAttemptsAtSubmission = 2, attemptedAt = t\<rparr>"

definition tie_docs :: "submission list" where
  "tie_docs =
     [graded_doc (Some ''quizA'') (Some 2) (Some 3000) ''first'' True,
      graded_doc (Some ''quizA'') (Some 2) (Some 1000) ''second'' False,
      graded_doc (Some ''quizA'') (Some 1) (Some 5000) ''third'' True]"

definition legacy_docs :: "submission list" where
  "legacy_docs =
     [graded_doc (Some ''quizA'') None (Some 100) ''old1'' False,
      graded_doc (Some ''quizA'') (Some 0) (Some 50) ''old2'' True]"

text \<open>A quiz with one question and a given \<open>maxAttempts\<close> field.\<close>

definition plain_quiz :: "jsval \<Rightarrow> quiz" where
  "plain_quiz v =
     \<lparr>quiz_id = ''quizA'', title = Some ''Algebra'', classId = Some ''c1'', className = Some ''7b'',
      isLocked = False, maxAttempts = v, prefillFromLastAttempt = True, allowShuffle = False,
      questions = Some [\<lparr>q_id = Some ''q-1'', q_text = Some ''2 + 2'', showFeedback = True\<rparr>]\<rparr>"

definition limit_two_quiz :: quiz where
  "limit_two_quiz = plain_quiz (JNum (Fin 2))"

definition used_three :: "string \<rightharpoonup> answer_map quiz_summary" where
  "used_three =
     [''quizA'' \<mapsto> \<lparr>count = 3, latestAttemptNumber = 3, latestAnswers = [],
                    latestEvaluations = Map.empty\<rparr>]"


text \<open>
  A student who has taken \<open>quizA\<close> once: the summary entry refers to the object at
  address 0, the answers of that attempt.
\<close>

definition returning_state :: student_view where
  "returning_state =
     \<lparr>user = \<lparr>uid = ''u1'', email = Some ''ada@example.org'', displayName = None\<rparr>,
      selectedClass = Some ''7b'',
      submissionSummary =
        [''quizA'' \<mapsto> \<lparr>count = 1, latestAttemptNumber = 1, latestAnswers = 0,
                       latestEvaluations = Map.empty\<rparr>],
      heap = [[(''q-1'', ''4'')], []],
      view = ''list'', activeQuiz = None, activeHistoryAttempt = None, studentAnswers = 1,
      gradingResult = None, isSubmitting = False, viewingResult = False,
      shuffledQuestions = [], alerts = [], store = []\<rparr>"

text \<open>
  A quiz with two questions, the state of a student who has answered both in the second
  attempt, a network on which the grading call throws, and one on which the grading
  function answers the request of this student with evaluations. Neither confirms a
  submission with unanswered questions.
\<close>

definition two_question_quiz :: quiz where
  "two_question_quiz =
     \<lparr>quiz_id = ''quizA'', title = Some ''Algebra'', classId = Some ''c1'', className = Some ''7b'',
      isLocked = False, maxAttempts = JNum (Fin 2), prefillFromLastAttempt = True,
      allowShuffle = False,
      questions = Some [\<lparr>q_id = Some ''q-1'', q_text = Some ''2 + 2'', showFeedback = True\<rparr>,
                        \<lparr>q_id = Some ''q-2'', q_text = Some ''3 + 4'', showFeedback = False\<rparr>]\<rparr>"

definition taking_state :: "quiz \<Rightarrow> student_view" where
  "taking_state quiz =
     returning_state\<lparr>activeQuiz := Some quiz, view := ''quiz'',
                     heap := [[(''q-1'', ''4'')], [(''q-1'', ''5''), (''q-2'', ''8'')]]\<rparr>"

definition offline_env :: submit_env where
  "offline_env =
     \<lparr>confirm_submit = False, fetch = (\<lambda>r. FetchThrows), addDoc_id = Some ''doc-7'',
      now = 1700000000000\<rparr>"

definition sample_evaluations :: evaluation_map where
  "sample_evaluations =
     [''q-1'' \<mapsto> \<lparr>isCorrect = False, feedback = ''2 + 2 = 4''\<rparr>,
      ''q-2'' \<mapsto> \<lparr>isCorrect = False, feedback = ''3 + 4 = 7''\<rparr>]"

definition graded_env :: submit_env where
  "graded_env =
     \<lparr>confirm_submit = False,
      fetch = (\<lambda>r. if r_quizTitle r = Some ''Algebra'' \<and>
                       r_questions r = questions two_question_quiz \<and>
                       r_studentAnswers r = Some [(''q-1'', ''5''), (''q-2'', ''8'')]
                    then Response True (JsonObject (Some sample_evaluations))
                    else FetchThrows),
      addDoc_id = Some ''doc-8'', now = 1700000000000\<rparr>"

text \<open>
  A grading request with a title of 250 characters and 25 questions of 2000 characters,
  and a configured handler whose model answers at once.
\<close>

definition long_request :: grade_request where
  "long_request =
     \<lparr>r_quizTitle = Some (replicate 250 CHR ''T''),
      r_questions = Some (replicate 25 \<lparr>q_id = Some ''q-1'',
                      q_text = Some (replicate 2000 CHR ''x''), showFeedback = True\<rparr>),
      r_studentAnswers = Some [(''q-1'', replicate 1500 CHR ''y'')]\<rparr>"

definition configured_env :: handler_env where
  "configured_env =
     \<lparr>GEMINI_API_KEY = Some ''key'', GEMINI_MODEL = None,
      generate = (\<lambda>modelName prompt. ModelText ''{}''),
      json_parse = (\<lambda>text. ParseReturns \<lparr>pd_truthy = True, pd_evaluations = True, pd_json = text\<rparr>)\<rparr>"

text \<open>
  A request whose first three questions are a short one with a short answer, one with an
  empty answer and a long one with a long answer, and the prompt parts made of it.
\<close>

definition capped_request :: grade_request where
  "capped_request =
     \<lparr>r_quizTitle = Some (replicate 250 CHR ''T''),
      r_questions =
        Some ([\<lparr>q_id = Some ''q-2'', q_text = Some ''2 + 2'', showFeedback = True\<rparr>,
               \<lparr>q_id = Some ''q-3'', q_text = Some ''3 + 3'', showFeedback = True\<rparr>] @
              replicate 23 \<lparr>q_id = Some ''q-1'', q_text = Some (replicate 2000 CHR ''x''),
                             showFeedback = True\<rparr>),
      r_studentAnswers =
        Some [(''q-1'', replicate 1500 CHR ''y''), (''q-2'', ''4''), (''q-3'', [])]\<rparr>"

definition capped_parts :: prompt_parts where
  "capped_parts =
     \<lparr>p_title = replicate 200 CHR ''T'' @ ''...'',
      p_entries =
        [\<lparr>e_id = ''q-2'', e_question = ''2 + 2'', e_answer = ''4''\<rparr>,
         \<lparr>e_id = ''q-3'', e_question = ''3 + 3'', e_answer = ''No answer provided''\<rparr>] @
        replicate 18 \<lparr>e_id = ''q-1'', e_question = replicate 1200 CHR ''x'' @ ''...'',
                       e_answer = replicate 1200 CHR ''y'' @ ''...''\<rparr>\<rparr>"

definition bad_json_event :: event where
  "bad_json_event = \<lparr>httpMethod = ''POST'', body = BadJson ''Unexpected token''\<rparr>"

definition get_event :: event where
  "get_event = \<lparr>httpMethod = ''GET'', body = Body long_request\<rparr>"

section \<open>Properties of the attempt ledger\<close>

lemma summary_snoc: "useStudentSubmissions (xs @ [d]) = summary_step (useStudentSubmissions xs) d"
  by (simp add: useStudentSubmissions_def)

lemma summary_step_skip: "\<not> truthy (quizId d) \<Longrightarrow> summary_step m d = m"
  by (simp add: summary_step_def)

lemma summary_step_other: "quizId d \<noteq> Some q \<Longrightarrow> summary_step m d q = m q"
  by (auto simp: summary_step_def Let_def truthy_def split: option.splits)

lemma truthy_Some: "truthy (Some q) = (q \<noteq> [])"
  by (simp add: truthy_def)

lemma summary_step_same:
  "quizId d = Some q \<Longrightarrow> q \<noteq> [] \<Longrightarrow>
   summary_step m d q =
     Some (let e1 = (entry_or_new (m q))\<lparr>count := count (entry_or_new (m q)) + 1\<rparr>
           in if attempt_no d \<ge> latestAttemptNumber e1
              then e1\<lparr>latestAttemptNumber := attempt_no d, latestAnswers := answers_or_empty d,
                      latestEvaluations := evaluations_or_empty d\<rparr>
              else e1)"
  by (simp add: summary_step_def Let_def truthy_def entry_or_new_def split: option.splits)

lemma summary_none_iff:
  "(useStudentSubmissions xs q = None) = (q = [] \<or> (\<forall>d\<in>set xs. quizId d \<noteq> Some q))"
proof (induction xs rule: rev_induct)
  case Nil
  show ?case by (simp add: useStudentSubmissions_def)
next
  case (snoc d xs)
  show ?case
  proof (cases "quizId d = Some q \<and> q \<noteq> []")
    case True
    then show ?thesis by (simp add: summary_snoc summary_step_same)
  next
    case False
    then have "summary_step (useStudentSubmissions xs) d q = useStudentSubmissions xs q"
      by (cases "quizId d = Some q") (auto simp: summary_step_other summary_step_skip truthy_def)
    with False snoc show ?thesis by (auto simp: summary_snoc)
  qed
qed

lemma summary_count:
  "useStudentSubmissions xs q = Some e \<Longrightarrow> count e = length (filter (\<lambda>d. quizId d = Some q) xs)"
proof (induction xs arbitrary: e rule: rev_induct)
  case Nil
  then show ?case by (simp add: useStudentSubmissions_def)
next
  case (snoc d xs)
  show ?case
  proof (cases "quizId d = Some q \<and> q \<noteq> []")
    case True
    show ?thesis
    proof (cases "useStudentSubmissions xs q")
      case None
      then have "\<forall>d\<in>set xs. quizId d \<noteq> Some q" using True by (simp add: summary_none_iff)
      then have "filter (\<lambda>d. quizId d = Some q) xs = []" by (simp add: filter_empty_conv)
      with snoc.prems True None show ?thesis
        by (auto simp: summary_snoc summary_step_same entry_or_new_def Let_def split: if_splits)
    next
      case (Some e0)
      with snoc.IH have "count e0 = length (filter (\<lambda>d. quizId d = Some q) xs)" by simp
      with snoc.prems True Some show ?thesis
        by (auto simp: summary_snoc summary_step_same entry_or_new_def Let_def split: if_splits)
    qed
  next
    case False
    then have "summary_step (useStudentSubmissions xs) d q = useStudentSubmissions xs q"
      by (cases "quizId d = Some q") (auto simp: summary_step_other summary_step_skip truthy_def)
    moreover from snoc.prems have "q \<noteq> []"
      using summary_none_iff [of "xs @ [d]" q] by auto
    ultimately show ?thesis using snoc False
      by (auto simp: summary_snoc)
  qed
qed

lemma summary_skip_falsy:
  "\<not> truthy (quizId d) \<Longrightarrow> useStudentSubmissions (xs @ d # ys) = useStudentSubmissions (xs @ ys)"
  by (simp add: useStudentSubmissions_def summary_step_skip)


lemma attempt_no_field: "attempt_no d = (case attemptNumber d of None \<Rightarrow> 0 | Some n \<Rightarrow> n)"
  by (simp add: attempt_no_def split: option.splits)

lemma latest_at_coerced:
  "latest_at xs q i =
     (i < length xs \<and> quizId (xs ! i) = Some q \<and>
      (\<forall>j<length xs. quizId (xs ! j) = Some q \<longrightarrow>
         attempt_no (xs ! j) \<le> attempt_no (xs ! i) \<and>
         (attempt_no (xs ! j) = attempt_no (xs ! i) \<longrightarrow> j \<le> i)))"
  by (simp add: latest_at_def attempt_no_field)

lemma snapshot_of_coerced:
  "snapshot_of e d =
     (latestAttemptNumber e = attempt_no d \<and> latestAnswers e = answers_or_empty d \<and>
      latestEvaluations e = evaluations_or_empty d)"
  by (simp add: snapshot_of_def attempt_no_field answers_or_empty_def evaluations_or_empty_def)

lemma latest_at_unique: "latest_at xs q i \<Longrightarrow> latest_at xs q j \<Longrightarrow> i = j"
  unfolding latest_at_coerced by (meson le_antisym)

lemma summary_latest_index:
  "useStudentSubmissions xs q = Some e \<Longrightarrow> \<exists>i. latest_at xs q i \<and> snapshot_of e (xs ! i)"
proof (induction xs arbitrary: e rule: rev_induct)
  case Nil
  then show ?case by (simp add: useStudentSubmissions_def)
next
  case (snoc d xs)
  from snoc.prems have qne: "q \<noteq> []"
    using summary_none_iff [of "xs @ [d]" q] by auto
  let ?n = "length xs"
  have new: "latest_at (xs @ [d]) q ?n"
    if "quizId d = Some q"
      and "\<forall>j<?n. quizId (xs ! j) = Some q \<longrightarrow> attempt_no (xs ! j) \<le> attempt_no d"
    using that by (auto simp: latest_at_coerced nth_append less_Suc_eq)
  have old: "latest_at (xs @ [d]) q i"
    if "latest_at xs q i" and "quizId d = Some q \<longrightarrow> attempt_no d < attempt_no (xs ! i)" for i
    using that by (auto simp: latest_at_coerced nth_append less_Suc_eq)
  show ?case
  proof (cases "quizId d = Some q")
    case True
    show ?thesis
    proof (cases "useStudentSubmissions xs q")
      case None
      then have none: "\<forall>d\<in>set xs. quizId d \<noteq> Some q" using qne by (simp add: summary_none_iff)
      have "latest_at (xs @ [d]) q ?n" using new True none by auto
      moreover have "snapshot_of e ((xs @ [d]) ! ?n)"
        using snoc.prems True None qne
        by (auto simp: summary_snoc summary_step_same entry_or_new_def Let_def snapshot_of_coerced)
      ultimately show ?thesis by blast
    next
      case (Some e0)
      with snoc.IH obtain i where i: "latest_at xs q i" "snapshot_of e0 (xs ! i)" by blast
      show ?thesis
      proof (cases "attempt_no d \<ge> latestAttemptNumber e0")
        case True
        with i have "\<forall>j<?n. quizId (xs ! j) = Some q \<longrightarrow> attempt_no (xs ! j) \<le> attempt_no d"
          by (auto simp: latest_at_coerced snapshot_of_coerced intro: order_trans)
        then have "latest_at (xs @ [d]) q ?n" using new \<open>quizId d = Some q\<close> by blast
        moreover have "snapshot_of e ((xs @ [d]) ! ?n)"
          using snoc.prems \<open>quizId d = Some q\<close> Some qne True
          by (auto simp: summary_snoc summary_step_same entry_or_new_def Let_def snapshot_of_coerced)
        ultimately show ?thesis by blast
      next
        case False
        with i have "latest_at (xs @ [d]) q i"
          using old by (auto simp: snapshot_of_coerced)
        moreover have "e = e0\<lparr>count := count e0 + 1\<rparr>"
          using snoc.prems \<open>quizId d = Some q\<close> Some qne False
          by (auto simp: summary_snoc summary_step_same entry_or_new_def Let_def)
        then have "snapshot_of e ((xs @ [d]) ! i)"
          using i by (auto simp: snapshot_of_coerced latest_at_coerced nth_append)
        ultimately show ?thesis by blast
      qed
    qed
  next
    case False
    then have "useStudentSubmissions xs q = Some e"
      using snoc.prems by (simp add: summary_snoc summary_step_other)
    with snoc.IH obtain i where i: "latest_at xs q i" "snapshot_of e (xs ! i)" by blast
    then have "latest_at (xs @ [d]) q i" using old False by blast
    moreover have "snapshot_of e ((xs @ [d]) ! i)"
      using i by (auto simp: latest_at_coerced nth_append)
    ultimately show ?thesis by blast
  qed
qed

lemma summary_all_zero:
  "useStudentSubmissions xs q = Some e \<Longrightarrow>
   \<forall>r\<in>set xs. quizId r = Some q \<longrightarrow> attempt_no r = 0 \<Longrightarrow>
   snapshot_of e (last (filter (\<lambda>r. quizId r = Some q) xs))"
proof (induction xs arbitrary: e rule: rev_induct)
  case Nil
  then show ?case by (simp add: useStudentSubmissions_def)
next
  case (snoc d xs)
  from snoc.prems have qne: "q \<noteq> []"
    using summary_none_iff [of "xs @ [d]" q] by auto
  show ?case
  proof (cases "quizId d = Some q")
    case True
    then have d0: "attempt_no d = 0" using snoc.prems by simp
    show ?thesis
    proof (cases "useStudentSubmissions xs q")
      case None
      then show ?thesis using snoc.prems True qne
        by (auto simp: summary_snoc summary_step_same entry_or_new_def Let_def snapshot_of_coerced)
    next
      case (Some e0)
      then have "snapshot_of e0 (last (filter (\<lambda>r. quizId r = Some q) xs))"
        using snoc by simp
      moreover have "attempt_no (last (filter (\<lambda>r. quizId r = Some q) xs)) = 0"
      proof -
        from Some qne have "filter (\<lambda>r. quizId r = Some q) xs \<noteq> []"
          using summary_none_iff [of xs q] by (auto simp: filter_empty_conv)
        then have "last (filter (\<lambda>r. quizId r = Some q) xs) \<in> set (filter (\<lambda>r. quizId r = Some q) xs)"
          by (rule last_in_set)
        then show ?thesis using snoc.prems(2) by auto
      qed
      ultimately have "latestAttemptNumber e0 = 0" by (simp add: snapshot_of_coerced)
      then show ?thesis using snoc.prems True qne Some d0
        by (auto simp: summary_snoc summary_step_same entry_or_new_def Let_def snapshot_of_coerced)
    qed
  next
    case False
    then have "useStudentSubmissions xs q = Some e"
      using snoc.prems by (simp add: summary_snoc summary_step_other)
    then show ?thesis using snoc False by simp
  qed
qed


text \<open>
  Claim C3. The summary of an empty sequence is the empty map. Every quiz id \<open>q\<close>
  that is not empty and occurs in the sequence has an entry, whose \<open>count\<close> is the number
  of records of the sequence with that quiz id; no other key has an entry. A record whose
  quiz id is absent or empty is skipped: the summary is the one of the sequence without it.
\<close>

theorem summary_counts_records:
  "useStudentSubmissions [] = Map.empty \<and>
   (q \<noteq> [] \<and> (\<exists>d\<in>set xs. quizId d = Some q) \<longrightarrow>
      (\<exists>e. useStudentSubmissions xs q = Some e \<and>
           count e = length (filter (\<lambda>d. quizId d = Some q) xs))) \<and>
   (q = [] \<or> (\<forall>d\<in>set xs. quizId d \<noteq> Some q) \<longrightarrow> useStudentSubmissions xs q = None) \<and>
   (\<forall>(d::submission) pre post. \<not> truthy (quizId d) \<longrightarrow>
      useStudentSubmissions (pre @ d # post) = useStudentSubmissions (pre @ post))"
proof (intro conjI impI allI)
  show "useStudentSubmissions [] = Map.empty"
    by (simp add: useStudentSubmissions_def)
next
  assume a: "q \<noteq> [] \<and> (\<exists>d\<in>set xs. quizId d = Some q)"
  then have "useStudentSubmissions xs q \<noteq> None"
    by (simp add: summary_none_iff)
  then obtain e where e: "useStudentSubmissions xs q = Some e" by blast
  then have "count e = length (filter (\<lambda>d. quizId d = Some q) xs)"
    by (rule summary_count)
  with e show "\<exists>e. useStudentSubmissions xs q = Some e \<and>
      count e = length (filter (\<lambda>d. quizId d = Some q) xs)" by blast
next
  assume "q = [] \<or> (\<forall>d\<in>set xs. quizId d \<noteq> Some q)"
  then show "useStudentSubmissions xs q = None" by (simp add: summary_none_iff)
next
  fix d :: submission and pre post :: "submission list"
  assume "\<not> truthy (quizId d)"
  then show "useStudentSubmissions (pre @ d # post) = useStudentSubmissions (pre @ post)"
    by (rule summary_skip_falsy)
qed

theorem summary_counts_records_witness:
  "\<exists>e. useStudentSubmissions mixed_docs ''quizA'' = Some e \<and> count e = 2"
proof -
  have h: "''quizA'' \<noteq> [] \<and> (\<exists>d\<in>set mixed_docs. quizId d = Some ''quizA'')"
    by (simp add: mixed_docs_def attempt_doc_def)
  have f: "length (filter (\<lambda>d. quizId d = Some ''quizA'') mixed_docs) = 2"
    by (simp add: mixed_docs_def attempt_doc_def)
  have "\<exists>e. useStudentSubmissions mixed_docs ''quizA'' = Some e \<and>
          count e = length (filter (\<lambda>d. quizId d = Some ''quizA'') mixed_docs)"
    using summary_counts_records [of "''quizA''" mixed_docs] h by blast
  then show ?thesis by (simp only: f)
qed

text \<open>
  Claim C2. Let records \<open>i\<close> and \<open>j\<close> of the sequence, \<open>i\<close> before \<open>j\<close>, belong to
  the same quiz and have equal attempt numbers. The entry of the quiz takes its latest
  attempt number, answers and evaluations from the fields of one and the same record
  \<open>k\<close>, which is the last of the records of the quiz with the largest attempt number.
  So \<open>k\<close> is never the earlier record \<open>i\<close>, and it is the later record \<open>j\<close> whenever
  the tie is for the largest attempt number and \<open>j\<close> is the last record of the tie. The
  times of the records play no part.
\<close>

theorem tie_break_later_record_wins:
  assumes "i < j" and "j < length xs"
    and "quizId (xs ! i) = Some q" and "quizId (xs ! j) = Some q" and "q \<noteq> []"
    and "(case attemptNumber (xs ! i) of None \<Rightarrow> 0 | Some n \<Rightarrow> n) = 
         (case attemptNumber (xs ! j) of None \<Rightarrow> 0 | Some n \<Rightarrow> n)"
  shows "\<exists>e k. useStudentSubmissions xs q = Some e \<and> latest_at xs q k \<and>
           latestAttemptNumber e = (case attemptNumber (xs ! k) of None \<Rightarrow> 0 | Some n \<Rightarrow> n) \<and>
           latestAnswers e = (case answers (xs ! k) of None \<Rightarrow> [] | Some a \<Rightarrow> a) \<and>
           latestEvaluations e = 
             (case evaluations (xs ! k) of None \<Rightarrow> Map.empty | Some v \<Rightarrow> v) \<and>
           k \<noteq> i \<and> (latest_at xs q j \<longrightarrow> k = j)"
proof -
  have "xs ! j \<in> set xs" using assms(2) by simp
  then have "useStudentSubmissions xs q \<noteq> None"
    using assms(4,5) by (auto simp: summary_none_iff)
  then obtain e where e: "useStudentSubmissions xs q = Some e" by blast
  then obtain k where k: "latest_at xs q k" "snapshot_of e (xs ! k)"
    using summary_latest_index by blast
  have "k \<noteq> i"
  proof
    assume "k = i"
    with k(1) assms(2,4,6) have "j \<le> i" by (auto simp: latest_at_def)
    with assms(1) show False by simp
  qed
  moreover have "latest_at xs q j \<longrightarrow> k = j"
    using k(1) latest_at_unique by blast
  ultimately show ?thesis using e k by (auto simp: snapshot_of_def)
qed

theorem tie_break_later_record_wins_witness:
  "attemptNumber (tie_docs ! 0) = Some 2 \<and> attemptNumber (tie_docs ! 1) = Some 2 \<and>
   attemptNumber (tie_docs ! 2) = Some 1 \<and>
   attemptedAt (tie_docs ! 0) = Some 3000 \<and> attemptedAt (tie_docs ! 1) = Some 1000 \<and>
   attemptedAt (tie_docs ! 2) = Some 5000 \<and>
   (\<exists>e. useStudentSubmissions tie_docs ''quizA'' = Some e \<and>
        latestAttemptNumber e = 2 \<and>
        latestAnswers e = [(''q-1'', ''second'')] \<and>
        latestEvaluations e = [''q-1'' \<mapsto> \<lparr>isCorrect = False, feedback = ''second''\<rparr>])"
proof -
  have h: "(0::nat) < 1" "1 < length tie_docs" "quizId (tie_docs ! 0) = Some ''quizA''"
    "quizId (tie_docs ! 1) = Some ''quizA''" "''quizA'' \<noteq> []"
    "(case attemptNumber (tie_docs ! 0) of None \<Rightarrow> 0 | Some n \<Rightarrow> n) =
     (case attemptNumber (tie_docs ! 1) of None \<Rightarrow> 0 | Some n \<Rightarrow> n)"
    by (simp_all add: tie_docs_def graded_doc_def)
  have f: "attemptNumber (tie_docs ! 0) = Some 2" "attemptNumber (tie_docs ! 1) = Some 2"
    "attemptNumber (tie_docs ! 2) = Some 1"
    "attemptedAt (tie_docs ! 0) = Some 3000" "attemptedAt (tie_docs ! 1) = Some 1000"
    "attemptedAt (tie_docs ! 2) = Some 5000"
    "answers (tie_docs ! 1) = Some [(''q-1'', ''second'')]"
    "evaluations (tie_docs ! 1) = Some [''q-1'' \<mapsto> \<lparr>isCorrect = False, feedback = ''second''\<rparr>]"
    by (simp_all add: tie_docs_def graded_doc_def)
  have l: "latest_at tie_docs ''quizA'' 1"
    by (simp add: latest_at_def tie_docs_def graded_doc_def less_Suc_eq)
  from tie_break_later_record_wins [OF h] l f(2,7,8)
  have "\<exists>e. useStudentSubmissions tie_docs ''quizA'' = Some e \<and>
        latestAttemptNumber e = 2 \<and>
        latestAnswers e = [(''q-1'', ''second'')] \<and>
        latestEvaluations e = [''q-1'' \<mapsto> \<lparr>isCorrect = False, feedback = ''second''\<rparr>]"
    by auto
  with f show ?thesis by blast
qed

text \<open>
  Claim C10. A record of quiz \<open>q\<close> whose attempt number is absent or zero is given the
  attempt number 0. It adds one to the count of its quiz in every step, so it is counted
  in the summary. When every record of the quiz has an absent or zero attempt number, so
  that none has a larger one, the latest attempt number of the entry is 0 and its latest
  answers and evaluations are the \<open>answers\<close> and \<open>evaluations\<close> fields of the last
  record of the quiz in the sequence, which is such a record.
\<close>

theorem legacy_records_stay_in_summary:
  assumes "d \<in> set xs" and "quizId d = Some q" and "q \<noteq> []"
    and "attemptNumber d = None \<or> attemptNumber d = Some 0"
  shows "attempt_no d = 0 \<and>
         (\<forall>m. \<exists>e'. summary_step m d q = Some e' \<and>
                 count e' = (case m q of None \<Rightarrow> 0 | Some e0 \<Rightarrow> count e0) + 1) \<and>
         (\<exists>e. useStudentSubmissions xs q = Some e \<and>
              count e = length (filter (\<lambda>r. quizId r = Some q) xs) \<and> 1 \<le> count e \<and>
              ((\<forall>r\<in>set xs. quizId r = Some q \<longrightarrow>
                   attemptNumber r = None \<or> attemptNumber r = Some 0) \<longrightarrow>
                 (attemptNumber (last (filter (\<lambda>r. quizId r = Some q) xs)) = None \<or>
                  attemptNumber (last (filter (\<lambda>r. quizId r = Some q) xs)) = Some 0) \<and>
                 latestAttemptNumber e = 0 \<and>
                 latestAnswers e =
                   (case answers (last (filter (\<lambda>r. quizId r = Some q) xs)) of
                      None \<Rightarrow> [] | Some a \<Rightarrow> a) \<and>
                 latestEvaluations e =
                   (case evaluations (last (filter (\<lambda>r. quizId r = Some q) xs)) of
                      None \<Rightarrow> Map.empty | Some v \<Rightarrow> v)))"
proof (intro conjI allI)
  show "attempt_no d = 0" using assms(4) by (auto simp: attempt_no_def)
next
  fix m
  show "\<exists>e'. summary_step m d q = Some e' \<and>
              count e' = (case m q of None \<Rightarrow> 0 | Some e0 \<Rightarrow> count e0) + 1"
    using assms(2,3)
    by (auto simp: summary_step_same entry_or_new_def Let_def split: option.splits)
next
  let ?qs = "filter (\<lambda>r. quizId r = Some q) xs"
  have "useStudentSubmissions xs q \<noteq> None"
    using assms(1,2,3) by (auto simp: summary_none_iff)
  then obtain e where e: "useStudentSubmissions xs q = Some e" by blast
  have c: "count e = length ?qs" using e by (rule summary_count)
  have "d \<in> set ?qs" using assms(1,2) by simp
  then have ne: "?qs \<noteq> []" by (auto simp: filter_empty_conv)
  then have c1: "1 \<le> count e" using c by (cases ?qs) auto
  have "(attemptNumber (last ?qs) = None \<or> attemptNumber (last ?qs) = Some 0) \<and>
        latestAttemptNumber e = 0 \<and>
        latestAnswers e = (case answers (last ?qs) of None \<Rightarrow> [] | Some a \<Rightarrow> a) \<and>
        latestEvaluations e =
          (case evaluations (last ?qs) of None \<Rightarrow> Map.empty | Some v \<Rightarrow> v)"
    if z: "\<forall>r\<in>set xs. quizId r = Some q \<longrightarrow> attemptNumber r = None \<or> attemptNumber r = Some 0"
  proof -
    have "last ?qs \<in> set ?qs" using ne by (rule last_in_set)
    then have l: "attemptNumber (last ?qs) = None \<or> attemptNumber (last ?qs) = Some 0"
      using z by auto
    have "\<forall>r\<in>set xs. quizId r = Some q \<longrightarrow> attempt_no r = 0"
      using z by (auto simp: attempt_no_def)
    with e have "snapshot_of e (last ?qs)" by (rule summary_all_zero)
    with l show ?thesis by (auto simp: snapshot_of_def)
  qed
  with e c c1 show "\<exists>e. useStudentSubmissions xs q = Some e \<and>
              count e = length ?qs \<and> 1 \<le> count e \<and>
              ((\<forall>r\<in>set xs. quizId r = Some q \<longrightarrow>
                   attemptNumber r = None \<or> attemptNumber r = Some 0) \<longrightarrow>
                 (attemptNumber (last ?qs) = None \<or> attemptNumber (last ?qs) = Some 0) \<and>
                 latestAttemptNumber e = 0 \<and>
                 latestAnswers e = (case answers (last ?qs) of None \<Rightarrow> [] | Some a \<Rightarrow> a) \<and>
                 latestEvaluations e =
                   (case evaluations (last ?qs) of None \<Rightarrow> Map.empty | Some v \<Rightarrow> v))"
    by blast
qed

theorem legacy_records_stay_in_summary_witness:
  "attemptNumber (legacy_docs ! 0) = None \<and> attemptNumber (legacy_docs ! 1) = Some 0 \<and>
   (\<exists>e. useStudentSubmissions legacy_docs ''quizA'' = Some e \<and> count e = 2 \<and>
        latestAttemptNumber e = 0 \<and> latestAnswers e = [(''q-1'', ''old2'')] \<and>
        latestEvaluations e = [''q-1'' \<mapsto> \<lparr>isCorrect = True, feedback = ''old2''\<rparr>])"
proof -
  have h: "legacy_docs ! 0 \<in> set legacy_docs" "quizId (legacy_docs ! 0) = Some ''quizA''"
    "''quizA'' \<noteq> []"
    "attemptNumber (legacy_docs ! 0) = None \<or> attemptNumber (legacy_docs ! 0) = Some 0"
    by (simp_all add: legacy_docs_def graded_doc_def)
  have z: "\<forall>r\<in>set legacy_docs. quizId r = Some ''quizA'' \<longrightarrow>
      attemptNumber r = None \<or> attemptNumber r = Some 0"
    by (simp add: legacy_docs_def graded_doc_def)
  have f: "filter (\<lambda>r. quizId r = Some ''quizA'') legacy_docs = legacy_docs"
    by (simp add: legacy_docs_def graded_doc_def)
  have l: "answers (last legacy_docs) = Some [(''q-1'', ''old2'')]"
    "evaluations (last legacy_docs) =
       Some [''q-1'' \<mapsto> \<lparr>isCorrect = True, feedback = ''old2''\<rparr>]"
    "length legacy_docs = 2"
    "attemptNumber (legacy_docs ! 0) = None" "attemptNumber (legacy_docs ! 1) = Some 0"
    by (simp_all add: legacy_docs_def graded_doc_def)
  from legacy_records_stay_in_summary [OF h] z
  have "\<exists>e. useStudentSubmissions legacy_docs ''quizA'' = Some e \<and> count e = 2 \<and>
        latestAttemptNumber e = 0 \<and> latestAnswers e = [(''q-1'', ''old2'')] \<and>
        latestEvaluations e = [''q-1'' \<mapsto> \<lparr>isCorrect = True, feedback = ''old2''\<rparr>]"
    unfolding f by (auto simp: l)
  with l show ?thesis by blast
qed

section \<open>Properties of the attempt policy\<close>

text \<open>
  Claim C5. The remaining attempts are \<open>max 0 (maxAttempts - usedAttempts)\<close>, where
  \<open>maxAttempts\<close> is the coerced limit of the quiz and \<open>usedAttempts\<close> the count of the
  summary (0 without an entry). They are never negative, and 0 when more attempts are
  used than the limit allows.
\<close>

theorem remaining_attempts_never_negative:
  "remainingAttempts (getAttemptInfo quiz summ) =
     max 0 (info_maxAttempts (getAttemptInfo quiz summ) - int (usedAttempts (getAttemptInfo quiz summ))) \<and>
   info_maxAttempts (getAttemptInfo quiz summ) = getMaxAttempts quiz \<and>
   usedAttempts (getAttemptInfo quiz summ) =
     (case summ (quiz_id quiz) of None \<Rightarrow> 0 | Some e \<Rightarrow> count e) \<and>
   0 \<le> remainingAttempts (getAttemptInfo quiz summ) \<and>
   (info_maxAttempts (getAttemptInfo quiz summ) < int (usedAttempts (getAttemptInfo quiz summ)) \<longrightarrow>
      remainingAttempts (getAttemptInfo quiz summ) = 0)"
  by (simp add: getAttemptInfo_def Let_def)

theorem remaining_attempts_never_negative_witness:
  "info_maxAttempts (getAttemptInfo limit_two_quiz used_three) = 2 \<and>
   usedAttempts (getAttemptInfo limit_two_quiz used_three) = 3 \<and>
   info_maxAttempts (getAttemptInfo limit_two_quiz used_three)
     < int (usedAttempts (getAttemptInfo limit_two_quiz used_three)) \<and>
   remainingAttempts (getAttemptInfo limit_two_quiz used_three) = 0"
proof -
  have m: "getMaxAttempts limit_two_quiz = 2"
    by (simp add: getMaxAttempts_def limit_two_quiz_def plain_quiz_def nullish_def to_number_def)
  have u: "used_three (quiz_id limit_two_quiz) = Some \<lparr>count = 3, latestAttemptNumber = 3,
      latestAnswers = [], latestEvaluations = Map.empty\<rparr>"
    by (simp add: used_three_def limit_two_quiz_def plain_quiz_def)
  from remaining_attempts_never_negative [of limit_two_quiz used_three] m u
  show ?thesis by simp
qed

text \<open>
  The inputs listed for the coercion of \<open>maxAttempts\<close>: 0, -3, the text \<open>abc\<close>, null
  and an absent field give 1, and 3.7 gives 3.
\<close>

lemma getMaxAttempts_listed_inputs:
  "getMaxAttempts (plain_quiz (JNum (Fin 0))) = 1"
  "getMaxAttempts (plain_quiz (JNum (Fin (- 3)))) = 1"
  "getMaxAttempts (plain_quiz (JStr ''abc'')) = 1"
  "getMaxAttempts (plain_quiz JNull) = 1"
  "getMaxAttempts (plain_quiz JUndefined) = 1"
  "getMaxAttempts (plain_quiz (JNum (Fin (37 / 10)))) = 3"
  by code_simp+

lemma getMaxAttempts_nonnegative: "0 \<le> getMaxAttempts quiz"
  by (simp add: getMaxAttempts_def Let_def split: jsnum.splits)

text \<open>
  Claim C4. The coercion does not always give a positive integer: a limit strictly
  between 0 and 1 passes the test \<open>raw > 0\<close> and is then rounded down to 0. Here the
  limit is one half.
\<close>

theorem getMaxAttempts_half_is_zero:
  "getMaxAttempts (quiz\<lparr>maxAttempts := JNum (Fin (1 / 2))\<rparr>) = 0 \<and>
   remainingAttempts (getAttemptInfo (quiz\<lparr>maxAttempts := JNum (Fin (1 / 2))\<rparr>) Map.empty) = 0"
proof -
  have "\<lfloor>1 / 2 :: rat\<rfloor> = 0" by (simp add: floor_eq_iff)
  then show ?thesis
    by (simp add: getAttemptInfo_def getMaxAttempts_def nullish_def to_number_def)
qed

section \<open>Properties of the attempt history\<close>









lemma group_step_other: "quizId a \<noteq> Some q \<Longrightarrow> group_step g a q = g q"
  by (auto simp: group_step_def Let_def truthy_def split: option.splits)

lemma group_fold:
  "foldl group_step Map.empty xs q =
     (if q \<noteq> [] \<and> (\<exists>a\<in>set xs. quizId a = Some q)
      then Some (filter (\<lambda>a. quizId a = Some q) xs) else None)"
proof (induction xs rule: rev_induct)
  case Nil
  show ?case by simp
next
  case (snoc a xs)
  show ?case
  proof (cases "quizId a = Some q \<and> q \<noteq> []")
    case True
    then have "group_step (foldl group_step Map.empty xs) a q =
        Some ((case foldl group_step Map.empty xs q of None \<Rightarrow> [] | Some l \<Rightarrow> l) @ [a])"
      by (simp add: group_step_def truthy_def Let_def)
    with True snoc show ?thesis by (auto simp: filter_empty_conv)
  next
    case False
    then have "group_step (foldl group_step Map.empty xs) a q = foldl group_step Map.empty xs q"
      by (cases "quizId a = Some q") (simp_all add: group_step_other, simp add: group_step_def truthy_def)
    with False snoc show ?thesis by auto
  qed
qed

lemma attemptsByQuiz_present:
  "(attemptsByQuiz h q \<noteq> None) = (q \<noteq> [] \<and> (\<exists>a\<in>set h. quizId a = Some q))"
  by (simp add: attemptsByQuiz_def group_fold)



section \<open>Properties of the student view\<close>

subsection \<open>Prefill of a new attempt\<close>

lemma handleAnswerChange_heap:
  "heap (handleAnswerChange s k v) = heap s @ [AList.update k v (heap s ! studentAnswers s)]"
  by (simp add: handleAnswerChange_def alloc_def)

lemma handleAnswerChange_ref: "studentAnswers (handleAnswerChange s k v) = length (heap s)"
  by (simp add: handleAnswerChange_def alloc_def)

lemma handleAnswerChange_summary:
  "submissionSummary (handleAnswerChange s k v) = submissionSummary s"
  by (simp add: handleAnswerChange_def alloc_def)

lemma answer_changes_snoc:
  "answer_changes s (cs @ [(k, v)]) = handleAnswerChange (answer_changes s cs) k v"
  by (simp add: answer_changes_def)

lemma answer_changes_frame:
  "submissionSummary (answer_changes s cs) = submissionSummary s \<and>
   length (heap s) \<le> length (heap (answer_changes s cs)) \<and>
   (\<forall>a<length (heap s). heap (answer_changes s cs) ! a = heap s ! a)"
proof (induction cs rule: rev_induct)
  case Nil
  show ?case by (simp add: answer_changes_def)
next
  case (snoc c cs)
  obtain k v where c: "c = (k, v)" by (cases c)
  show ?case unfolding c answer_changes_snoc
    using snoc by (simp add: handleAnswerChange_heap handleAnswerChange_summary nth_append)
qed

lemma answer_changes_content:
  "studentAnswers s < length (heap s) \<Longrightarrow>
   studentAnswers (answer_changes s cs) < length (heap (answer_changes s cs)) \<and>
   heap (answer_changes s cs) ! studentAnswers (answer_changes s cs) =
     foldl (\<lambda>m (k, v). AList.update k v m) (heap s ! studentAnswers s) cs"
proof (induction cs rule: rev_induct)
  case Nil
  then show ?case by (simp add: answer_changes_def)
next
  case (snoc c cs)
  obtain k v where c: "c = (k, v)" by (cases c)
  show ?case unfolding c answer_changes_snoc
    using snoc by (simp add: handleAnswerChange_heap handleAnswerChange_ref)
qed

text \<open>
  Claim C7, as the code has it. Let the quiz have attempts left, so that
  \<^verbatim>\<open>startQuiz\<close> starts an attempt, and let the summary entry of the quiz, if there is
  one, refer to an object of the store. With \<open>prefillFromLastAttempt\<close> the answer map
  of the new attempt is the \<open>latestAnswers\<close> object of the entry itself, the same
  reference and so the same content, and an empty map when the quiz has no entry; without
  it the answer map is empty. Whatever answers are changed afterwards, the summary and
  every object that existed before the start, the latest answers among them, stay as they
  were: each change puts the changed map into a new object.
\<close>

theorem prefill_shares_the_snapshot_unaltered:
  assumes "0 < remainingAttempts (getAttemptInfo quiz (submissionSummary s))"
    and "\<forall>e. submissionSummary s (quiz_id quiz) = Some e \<longrightarrow> latestAnswers e < length (heap s)"
  shows "(prefillFromLastAttempt quiz \<longrightarrow>
           (\<forall>e. submissionSummary s (quiz_id quiz) = Some e \<longrightarrow>
              studentAnswers (startQuiz shuffle s quiz) = latestAnswers e \<and>
              heap (startQuiz shuffle s quiz) ! studentAnswers (startQuiz shuffle s quiz) =
                heap s ! latestAnswers e) \<and>
           (submissionSummary s (quiz_id quiz) = None \<longrightarrow>
              heap (startQuiz shuffle s quiz) ! studentAnswers (startQuiz shuffle s quiz) = [])) \<and>
         (\<not> prefillFromLastAttempt quiz \<longrightarrow>
            heap (startQuiz shuffle s quiz) ! studentAnswers (startQuiz shuffle s quiz) = []) \<and>
         submissionSummary (answer_changes (startQuiz shuffle s quiz) cs) = submissionSummary s \<and>
         (\<forall>a<length (heap s).
            heap (answer_changes (startQuiz shuffle s quiz) cs) ! a = heap s ! a) \<and>
         heap (answer_changes (startQuiz shuffle s quiz) cs)
             ! studentAnswers (answer_changes (startQuiz shuffle s quiz) cs) =
           foldl (\<lambda>m (k, v). AList.update k v m)
             (heap (startQuiz shuffle s quiz) ! studentAnswers (startQuiz shuffle s quiz)) cs"
proof -
  let ?s1 = "startQuiz shuffle s quiz"
  have pos: "\<not> remainingAttempts (getAttemptInfo quiz (submissionSummary s)) \<le> 0"
    using assms(1) by simp
  have summ: "submissionSummary ?s1 = submissionSummary s"
    using pos by (simp add: startQuiz_def alloc_def split: option.splits prod.splits)
  have grow: "length (heap s) \<le> length (heap ?s1) \<and> (\<forall>a<length (heap s). heap ?s1 ! a = heap s ! a)"
    using pos by (auto simp: startQuiz_def alloc_def nth_append split: option.splits)
  have valid: "studentAnswers ?s1 < length (heap ?s1)"
    using pos assms(2) by (auto simp: startQuiz_def alloc_def split: option.splits)
  have a: "studentAnswers ?s1 = latestAnswers e \<and>
           heap ?s1 ! studentAnswers ?s1 = heap s ! latestAnswers e"
    if "prefillFromLastAttempt quiz" "submissionSummary s (quiz_id quiz) = Some e" for e
    using pos that by (simp add: startQuiz_def)
  have b: "heap ?s1 ! studentAnswers ?s1 = []"
    if "prefillFromLastAttempt quiz" "submissionSummary s (quiz_id quiz) = None"
    using pos that by (simp add: startQuiz_def alloc_def)
  have c: "heap ?s1 ! studentAnswers ?s1 = []" if "\<not> prefillFromLastAttempt quiz"
    using pos that by (simp add: startQuiz_def alloc_def nth_append split: option.splits)
  have d: "submissionSummary (answer_changes ?s1 cs) = submissionSummary s"
    using answer_changes_frame [of ?s1 cs] summ by simp
  have e: "\<forall>a<length (heap s). heap (answer_changes ?s1 cs) ! a = heap s ! a"
    using answer_changes_frame [of ?s1 cs] grow by auto
  have f: "heap (answer_changes ?s1 cs) ! studentAnswers (answer_changes ?s1 cs) =
           foldl (\<lambda>m (k, v). AList.update k v m) (heap ?s1 ! studentAnswers ?s1) cs"
    using answer_changes_content [OF valid, of cs] by simp
  from a b c d e f show ?thesis by blast
qed

theorem prefill_shares_the_snapshot_unaltered_witness:
  "0 < remainingAttempts (getAttemptInfo limit_two_quiz (submissionSummary returning_state)) \<and>
   heap (answer_changes (startQuiz id returning_state limit_two_quiz) [(''q-1'', ''5'')]) ! 0 =
     [(''q-1'', ''4'')] \<and>
   heap (answer_changes (startQuiz id returning_state limit_two_quiz) [(''q-1'', ''5'')])
       ! studentAnswers (answer_changes (startQuiz id returning_state limit_two_quiz) [(''q-1'', ''5'')]) =
     [(''q-1'', ''5'')]"
proof -
  have m: "getMaxAttempts limit_two_quiz = 2"
    by (simp add: getMaxAttempts_def limit_two_quiz_def plain_quiz_def nullish_def to_number_def)
  have q: "quiz_id limit_two_quiz = ''quizA''" "prefillFromLastAttempt limit_two_quiz"
    by (simp_all add: limit_two_quiz_def plain_quiz_def)
  have e: "submissionSummary returning_state ''quizA'' =
      Some \<lparr>count = 1, latestAttemptNumber = 1, latestAnswers = 0, latestEvaluations = Map.empty\<rparr>"
    by (simp add: returning_state_def)
  have h: "heap returning_state = [[(''q-1'', ''4'')], []]"
    by (simp add: returning_state_def)
  have r: "0 < remainingAttempts (getAttemptInfo limit_two_quiz (submissionSummary returning_state))"
    by (simp add: getAttemptInfo_def m q e)
  have v: "\<forall>e. submissionSummary returning_state (quiz_id limit_two_quiz) = Some e \<longrightarrow>
      latestAnswers e < length (heap returning_state)"
    by (simp add: q e h)
  from prefill_shares_the_snapshot_unaltered [OF r v, of id "[(''q-1'', ''5'')]"] r
  show ?thesis by (auto simp: q e h)
qed

text \<open>
  Claim C7 as stated fails: the prefilled answer map is not a copy. For a student with
  one earlier attempt, the reference held by the component after \<^verbatim>\<open>startQuiz\<close> is
  the reference held by the summary entry.
\<close>

theorem prefill_is_the_same_object:
  "prefillFromLastAttempt limit_two_quiz \<and>
   view (startQuiz id returning_state limit_two_quiz) = ''quiz'' \<and>
   studentAnswers (startQuiz id returning_state limit_two_quiz) =
     latestAnswers (the (submissionSummary returning_state (quiz_id limit_two_quiz)))"
proof -
  have m: "getMaxAttempts limit_two_quiz = 2"
    by (simp add: getMaxAttempts_def limit_two_quiz_def plain_quiz_def nullish_def to_number_def)
  show ?thesis
    by (simp add: startQuiz_def getAttemptInfo_def m)
       (simp add: returning_state_def limit_two_quiz_def plain_quiz_def)
qed


subsection \<open>Submission when grading fails\<close>

lemma fallback_step_at:
  "fallback_step fb question k =
     (if q_id question = Some k \<and> k \<noteq> []
      then Some \<lparr>isCorrect = False, feedback = fallback_feedback\<rparr> else fb k)"
  by (cases "q_id question") (auto simp: fallback_step_def truthy_def)

lemma fallback_fold:
  "foldl fallback_step fb qs k =
     (if \<exists>question\<in>set qs. q_id question = Some k \<and> k \<noteq> []
      then Some \<lparr>isCorrect = False, feedback = fallback_feedback\<rparr> else fb k)"
proof (induction qs arbitrary: fb)
  case Nil
  show ?case by simp
next
  case (Cons question qs)
  have "foldl fallback_step fb (question # qs) k =
      foldl fallback_step (fallback_step fb question) qs k" by simp
  also have "\<dots> = (if \<exists>x\<in>set qs. q_id x = Some k \<and> k \<noteq> []
      then Some \<lparr>isCorrect = False, feedback = fallback_feedback\<rparr>
      else fallback_step fb question k)" by (rule Cons.IH)
  also have "\<dots> = (if \<exists>x\<in>set (question # qs). q_id x = Some k \<and> k \<noteq> []
      then Some \<lparr>isCorrect = False, feedback = fallback_feedback\<rparr> else fb k)"
    using fallback_step_at [of fb question k] by auto
  finally show ?case .
qed

lemma buildFallbackEvaluations_at:
  "buildFallbackEvaluations quiz k =
     (if \<exists>question\<in>set (questions_or_empty quiz). q_id question = Some k \<and> k \<noteq> []
      then Some \<lparr>isCorrect = False, feedback = fallback_feedback\<rparr> else None)"
  by (simp add: buildFallbackEvaluations_def fallback_fold)

lemma submitQuiz_adds_record:
  assumes "activeQuiz s = Some quiz" and "\<not> isSubmitting s"
    and "0 < remainingAttempts (getAttemptInfo quiz (submissionSummary s))"
    and "answeredCount (heap s ! studentAnswers s) < length (questions_or_empty quiz)
           \<longrightarrow> confirm_submit env"
    and "addDoc_id env = Some new_id"
  shows "\<exists>r. store (submitQuiz env s) = store s @ [r] \<and>
           answers r = Some (heap s ! studentAnswers s) \<and>
           quizId r = Some (quiz_id quiz) \<and>
           attemptNumber r = Some (usedAttempts (getAttemptInfo quiz (submissionSummary s)) + 1) \<and>
           gradingResult (submitQuiz env s) = evaluations r \<and>
           (case graded_evaluations (snd (gradeSubmission (fetch env) quiz (heap s ! studentAnswers s))) of
              Some ev \<Rightarrow> gradeStatus r = ''graded'' \<and> evaluations r = Some ev
            | None \<Rightarrow>
                gradeStatus r = ''needs_teacher_review'' \<and>
                evaluations r = Some (buildFallbackEvaluations quiz) \<and>
                (\<forall>question\<in>set (questions_or_empty quiz). truthy (q_id question) \<longrightarrow>
                   buildFallbackEvaluations quiz (the (q_id question)) =
                     Some \<lparr>isCorrect = False, feedback = fallback_feedback\<rparr>) \<and>
                (\<forall>k ev. buildFallbackEvaluations quiz k = Some ev \<longrightarrow>
                   ev = \<lparr>isCorrect = False, feedback = fallback_feedback\<rparr> \<and>
                   (\<exists>question\<in>set (questions_or_empty quiz). q_id question = Some k)))"
proof -
  let ?sa = "heap s ! studentAnswers s"
  obtain raised gd where g: "gradeSubmission (fetch env) quiz ?sa = (raised, gd)"
    by (cases "gradeSubmission (fetch env) quiz ?sa")
  have pos: "\<not> remainingAttempts (getAttemptInfo quiz (submissionSummary s)) \<le> 0"
    using assms(3) by simp
  have go: "\<not> (answeredCount ?sa < length (questions_or_empty quiz) \<and> \<not> confirm_submit env)"
    using assms(4) by blast
  have fb1: "\<forall>question\<in>set (questions_or_empty quiz). truthy (q_id question) \<longrightarrow>
      buildFallbackEvaluations quiz (the (q_id question)) =
        Some \<lparr>isCorrect = False, feedback = fallback_feedback\<rparr>"
    by (auto simp: buildFallbackEvaluations_at truthy_def split: option.splits)
  have fb2: "\<forall>k ev. buildFallbackEvaluations quiz k = Some ev \<longrightarrow>
      ev = \<lparr>isCorrect = False, feedback = fallback_feedback\<rparr> \<and>
      (\<exists>question\<in>set (questions_or_empty quiz). q_id question = Some k)"
    by (auto simp: buildFallbackEvaluations_at split: if_splits)
  show ?thesis
  proof (cases "graded_evaluations gd")
    case None
    then show ?thesis
      using assms(1,2,5) pos go g fb1 fb2
      by (simp add: submitQuiz_def Let_def)
  next
    case (Some ev)
    then show ?thesis
      using assms(1,2,5) pos go g
      by (simp add: submitQuiz_def Let_def)
  qed
qed

text \<open>
  Claim C1. Let a quiz be active, no submission be under way, attempts be left, and the
  student have answered every question or confirmed the submission, so that the grading
  call is made; let the questions of the quiz have ids, and let the store accept the new
  document. Then exactly one record is added to the store, with the answers of the
  student, the quiz id and the next attempt number. When the grading call gives
  evaluations, the record has them and the status \<open>graded\<close>. In every other case (the
  call throws, the response is not ok, its body is not JSON, or it has no evaluations)
  the status is \<open>needs_teacher_review\<close> and every question of the quiz has the
  evaluation "not correct" with the fixed feedback text, and there is no other
  evaluation.
\<close>

theorem failed_grading_still_stores_the_attempt:
  assumes "activeQuiz s = Some quiz" and "\<not> isSubmitting s"
    and "0 < remainingAttempts (getAttemptInfo quiz (submissionSummary s))"
    and "answeredCount (heap s ! studentAnswers s) < length (case questions quiz of None \<Rightarrow> [] | Some qs \<Rightarrow> qs)
           \<longrightarrow> confirm_submit env"
    and "addDoc_id env = Some new_id"
    and "\<forall>question\<in>set (case questions quiz of None \<Rightarrow> [] | Some qs \<Rightarrow> qs). \<exists>k. q_id question = Some k \<and> k \<noteq> []"
  shows "\<exists>r. store (submitQuiz env s) = store s @ [r] \<and>
           answers r = Some (heap s ! studentAnswers s) \<and>
           quizId r = Some (quiz_id quiz) \<and>
           attemptNumber r = Some ((case submissionSummary s (quiz_id quiz) of None \<Rightarrow> 0 | Some e \<Rightarrow> count e) + 1) \<and>
           gradingResult (submitQuiz env s) = evaluations r \<and>
           (\<forall>ev. fetch env \<lparr>r_quizTitle = title quiz, r_questions = questions quiz,
                  r_studentAnswers = Some (heap s ! studentAnswers s)\<rparr> = Response True (JsonObject (Some ev)) \<longrightarrow>
              gradeStatus r = ''graded'' \<and> evaluations r = Some ev) \<and>
           ((\<forall>ev. fetch env \<lparr>r_quizTitle = title quiz, r_questions = questions quiz,
                  r_studentAnswers = Some (heap s ! studentAnswers s)\<rparr> \<noteq> Response True (JsonObject (Some ev))) \<longrightarrow>
              gradeStatus r = ''needs_teacher_review'' \<and>
              (\<exists>fb. evaluations r = Some fb \<and>
                 (\<forall>question\<in>set (case questions quiz of None \<Rightarrow> [] | Some qs \<Rightarrow> qs). \<exists>k. q_id question = Some k \<and>
                    fb k = Some \<lparr>isCorrect = False, feedback = ''AI grading is unavailable. Your answer was saved and needs teacher review.''\<rparr>) \<and>
                 (\<forall>k ev. fb k = Some ev \<longrightarrow>
                    (\<exists>question\<in>set (case questions quiz of None \<Rightarrow> [] | Some qs \<Rightarrow> qs). q_id question = Some k))))"
proof -
  let ?sa = "heap s ! studentAnswers s"
  let ?req = "\<lparr>r_quizTitle = title quiz, r_questions = questions quiz,
                  r_studentAnswers = Some (heap s ! studentAnswers s)\<rparr>"
  let ?graded = "graded_evaluations (snd (gradeSubmission (fetch env) quiz ?sa))"
  have qs: "(case questions quiz of None \<Rightarrow> [] | Some qs \<Rightarrow> qs) = questions_or_empty quiz"
    by (simp add: questions_or_empty_def)
  have u: "usedAttempts (getAttemptInfo quiz (submissionSummary s)) = (case submissionSummary s (quiz_id quiz) of None \<Rightarrow> 0 | Some e \<Rightarrow> count e)"
    by (simp add: getAttemptInfo_def Let_def)
  have succ: "?graded = Some ev" if "fetch env ?req = Response True (JsonObject (Some ev))" for ev
    using that by (simp add: gradeSubmission_def graded_evaluations_def)
  have fail: "?graded = None" if "\<forall>ev. fetch env ?req \<noteq> Response True (JsonObject (Some ev))"
    using that
    by (cases "fetch env ?req")
       (auto simp: gradeSubmission_def graded_evaluations_def split: json_body.splits)
  from submitQuiz_adds_record [OF assms(1,2,3) assms(4) [unfolded qs] assms(5)]
  obtain r where r: "store (submitQuiz env s) = store s @ [r]"
    "answers r = Some ?sa" "quizId r = Some (quiz_id quiz)"
    "attemptNumber r = Some (usedAttempts (getAttemptInfo quiz (submissionSummary s)) + 1)"
    "gradingResult (submitQuiz env s) = evaluations r"
    and c: "case ?graded of
              Some ev \<Rightarrow> gradeStatus r = ''graded'' \<and> evaluations r = Some ev
            | None \<Rightarrow>
                gradeStatus r = ''needs_teacher_review'' \<and>
                evaluations r = Some (buildFallbackEvaluations quiz) \<and>
                (\<forall>question\<in>set (questions_or_empty quiz). truthy (q_id question) \<longrightarrow>
                   buildFallbackEvaluations quiz (the (q_id question)) =
                     Some \<lparr>isCorrect = False, feedback = fallback_feedback\<rparr>) \<and>
                (\<forall>k ev. buildFallbackEvaluations quiz k = Some ev \<longrightarrow>
                   ev = \<lparr>isCorrect = False, feedback = fallback_feedback\<rparr> \<and>
                   (\<exists>question\<in>set (questions_or_empty quiz). q_id question = Some k))"
    by blast
  have a: "gradeStatus r = ''graded'' \<and> evaluations r = Some ev"
    if "fetch env ?req = Response True (JsonObject (Some ev))" for ev
    using c succ [OF that] by simp
  have b: "gradeStatus r = ''needs_teacher_review'' \<and>
           (\<exists>fb. evaluations r = Some fb \<and>
              (\<forall>question\<in>set (case questions quiz of None \<Rightarrow> [] | Some qs \<Rightarrow> qs). \<exists>k. q_id question = Some k \<and>
                 fb k = Some \<lparr>isCorrect = False, feedback = ''AI grading is unavailable. Your answer was saved and needs teacher review.''\<rparr>) \<and>
              (\<forall>k ev. fb k = Some ev \<longrightarrow> (\<exists>question\<in>set (case questions quiz of None \<Rightarrow> [] | Some qs \<Rightarrow> qs). q_id question = Some k)))"
    if f: "\<forall>ev. fetch env ?req \<noteq> Response True (JsonObject (Some ev))"
  proof -
    from c fail [OF f] have st: "gradeStatus r = ''needs_teacher_review''"
      and ev: "evaluations r = Some (buildFallbackEvaluations quiz)"
      and f1: "\<forall>question\<in>set (questions_or_empty quiz). truthy (q_id question) \<longrightarrow>
                 buildFallbackEvaluations quiz (the (q_id question)) =
                   Some \<lparr>isCorrect = False, feedback = fallback_feedback\<rparr>"
      and f2: "\<forall>k ev. buildFallbackEvaluations quiz k = Some ev \<longrightarrow>
                 ev = \<lparr>isCorrect = False, feedback = fallback_feedback\<rparr> \<and>
                 (\<exists>question\<in>set (questions_or_empty quiz). q_id question = Some k)"
      by simp_all
    have "\<exists>k. q_id question = Some k \<and> buildFallbackEvaluations quiz k =
            Some \<lparr>isCorrect = False, feedback = ''AI grading is unavailable. Your answer was saved and needs teacher review.''\<rparr>"
      if "question \<in> set (case questions quiz of None \<Rightarrow> [] | Some qs \<Rightarrow> qs)" for question
    proof -
      from assms(6) that obtain k where k: "q_id question = Some k" "k \<noteq> []" by blast
      then have "truthy (q_id question)" by (simp add: truthy_def)
      with f1 that k show ?thesis unfolding qs by (auto simp: fallback_feedback_def)
    qed
    moreover have "\<exists>question\<in>set (case questions quiz of None \<Rightarrow> [] | Some qs \<Rightarrow> qs). q_id question = Some k"
      if "buildFallbackEvaluations quiz k = Some ev" for k ev
      using f2 that unfolding qs by blast
    ultimately show ?thesis using st ev by blast
  qed
  from r a b show ?thesis unfolding u by blast
qed

theorem failed_grading_still_stores_the_attempt_witness:
  "\<not> confirm_submit offline_env \<and> \<not> confirm_submit graded_env \<and>
   (\<exists>r. store (submitQuiz offline_env (taking_state two_question_quiz)) = [r] \<and>
        answers r = Some [(''q-1'', ''5''), (''q-2'', ''8'')] \<and> attemptNumber r = Some 2 \<and>
        gradeStatus r = ''needs_teacher_review'' \<and>
        (\<exists>fb. evaluations r = Some fb \<and>
           fb ''q-1'' = Some \<lparr>isCorrect = False, feedback = ''AI grading is unavailable. Your answer was saved and needs teacher review.''\<rparr> \<and>
           fb ''q-2'' = Some \<lparr>isCorrect = False, feedback = ''AI grading is unavailable. Your answer was saved and needs teacher review.''\<rparr>)) \<and>
   (\<exists>r. store (submitQuiz graded_env (taking_state two_question_quiz)) = [r] \<and>
        answers r = Some [(''q-1'', ''5''), (''q-2'', ''8'')] \<and> attemptNumber r = Some 2 \<and>
        gradeStatus r = ''graded'' \<and> evaluations r = Some sample_evaluations)"
proof -
  let ?s = "taking_state two_question_quiz"
  have m: "getMaxAttempts two_question_quiz = 2"
    by (simp add: getMaxAttempts_def two_question_quiz_def nullish_def to_number_def)
  have q: "quiz_id two_question_quiz = ''quizA''" "title two_question_quiz = Some ''Algebra''"
    "questions two_question_quiz =
       Some [\<lparr>q_id = Some ''q-1'', q_text = Some ''2 + 2'', showFeedback = True\<rparr>,
             \<lparr>q_id = Some ''q-2'', q_text = Some ''3 + 4'', showFeedback = False\<rparr>]"
    by (simp_all add: two_question_quiz_def)
  have s: "activeQuiz ?s = Some two_question_quiz" "\<not> isSubmitting ?s" "store ?s = []"
    "heap ?s ! studentAnswers ?s = [(''q-1'', ''5''), (''q-2'', ''8'')]"
    "submissionSummary ?s ''quizA'' =
       Some \<lparr>count = 1, latestAttemptNumber = 1, latestAnswers = 0, latestEvaluations = Map.empty\<rparr>"
    by (simp_all add: taking_state_def returning_state_def)
  have h3: "0 < remainingAttempts (getAttemptInfo two_question_quiz (submissionSummary ?s))"
    by (simp add: getAttemptInfo_def m q s)
  have n: "answeredCount [(''q-1'', ''5''), (''q-2'', ''8'')] = 2"
    by (simp add: answeredCount_def trim_def is_ws_def)
  have h4: "answeredCount (heap ?s ! studentAnswers ?s)
              < length (case questions two_question_quiz of None \<Rightarrow> [] | Some qs \<Rightarrow> qs)
            \<longrightarrow> confirm_submit env" for env
    by (simp add: s q n)
  have h6: "\<forall>question\<in>set (case questions two_question_quiz of None \<Rightarrow> [] | Some qs \<Rightarrow> qs).
              \<exists>k. q_id question = Some k \<and> k \<noteq> []"
    by (simp add: q)
  have o: "addDoc_id offline_env = Some ''doc-7''" "\<not> confirm_submit offline_env"
    "\<forall>ev. fetch offline_env
        \<lparr>r_quizTitle = title two_question_quiz, r_questions = questions two_question_quiz,
          r_studentAnswers = Some (heap ?s ! studentAnswers ?s)\<rparr>
      \<noteq> Response True (JsonObject (Some ev))"
    by (simp_all add: offline_env_def)
  have g: "addDoc_id graded_env = Some ''doc-8''" "\<not> confirm_submit graded_env"
    "fetch graded_env
        \<lparr>r_quizTitle = title two_question_quiz, r_questions = questions two_question_quiz,
          r_studentAnswers = Some (heap ?s ! studentAnswers ?s)\<rparr>
      = Response True (JsonObject (Some sample_evaluations))"
    by (simp_all add: graded_env_def s q)
  from failed_grading_still_stores_the_attempt [OF s(1) s(2) h3 h4 o(1) h6] o(3)
  have first: "\<exists>r. store (submitQuiz offline_env ?s) = [r] \<and>
        answers r = Some [(''q-1'', ''5''), (''q-2'', ''8'')] \<and> attemptNumber r = Some 2 \<and>
        gradeStatus r = ''needs_teacher_review'' \<and>
        (\<exists>fb. evaluations r = Some fb \<and>
           fb ''q-1'' = Some \<lparr>isCorrect = False, feedback = ''AI grading is unavailable. Your answer was saved and needs teacher review.''\<rparr> \<and>
           fb ''q-2'' = Some \<lparr>isCorrect = False, feedback = ''AI grading is unavailable. Your answer was saved and needs teacher review.''\<rparr>)"
    unfolding s q by fastforce
  from failed_grading_still_stores_the_attempt [OF s(1) s(2) h3 h4 g(1) h6] g(3)
  have second: "\<exists>r. store (submitQuiz graded_env ?s) = [r] \<and>
        answers r = Some [(''q-1'', ''5''), (''q-2'', ''8'')] \<and> attemptNumber r = Some 2 \<and>
        gradeStatus r = ''graded'' \<and> evaluations r = Some sample_evaluations"
    unfolding s q by fastforce
  from first second o(2) g(2) show ?thesis by blast
qed

section \<open>Properties of the grading function\<close>

lemma truncate_eq:
  "truncate v mx = (if mx < length (text_of v) then take mx (text_of v) @ ''...'' else text_of v)"
  by (simp add: truncate_def Let_def)

lemma truncate_length: "length (truncate v mx) \<le> mx + 3"
  by (simp add: truncate_eq)

lemma safe_questions_length: "length (safe_questions data) \<le> 20"
  by (simp add: safe_questions_def split: option.splits)

lemma truncate_Some: "truncate (Some t) mx = (if mx < length t then take mx t @ ''...'' else t)"
  by (simp add: truncate_def text_of_def)

lemma truncate_None: "truncate None mx = []"
  by (simp add: truncate_def text_of_def)

lemma prompt_entry_of_exact:
  "e_question (prompt_entry_of sa q) = truncate (q_text q) 1200 \<and>
   e_answer (prompt_entry_of sa q) =
     truncate (Some (case map_of sa (case q_id q of None \<Rightarrow> ''undefined'' | Some k \<Rightarrow> k) of
                       None \<Rightarrow> ''No answer provided''
                     | Some a \<Rightarrow> if a = [] then ''No answer provided'' else a)) 1200 \<and>
   length (e_question (prompt_entry_of sa q)) \<le> 1203 \<and>
   length (e_answer (prompt_entry_of sa q)) \<le> 1203 \<and>
   (\<forall>t. q_text q = Some t \<and> 1200 < length t \<longrightarrow>
      e_question (prompt_entry_of sa q) = take 1200 t @ ''...'') \<and>
   (\<forall>t. q_text q = Some t \<and> length t \<le> 1200 \<longrightarrow>
      e_question (prompt_entry_of sa q) = t) \<and>
   (\<forall>a. map_of sa (case q_id q of None \<Rightarrow> ''undefined'' | Some k \<Rightarrow> k) = Some a \<and> 1200 < length a \<longrightarrow>
      e_answer (prompt_entry_of sa q) = take 1200 a @ ''...'') \<and>
   (\<forall>a. map_of sa (case q_id q of None \<Rightarrow> ''undefined'' | Some k \<Rightarrow> k) = Some a \<and> a \<noteq> [] \<and> length a \<le> 1200 \<longrightarrow>
      e_answer (prompt_entry_of sa q) = a) \<and>
   (map_of sa (case q_id q of None \<Rightarrow> ''undefined'' | Some k \<Rightarrow> k) = None \<or>
    map_of sa (case q_id q of None \<Rightarrow> ''undefined'' | Some k \<Rightarrow> k) = Some [] \<longrightarrow>
      e_answer (prompt_entry_of sa q) = ''No answer provided'')"
  by (cases "q_text q")
     (auto simp: prompt_entry_of_def id_text_def or_str_def truthy_def truncate_Some truncate_None
           split: option.splits)

lemma build_prompt_entry:
  assumes "build_prompt data = Inr parts" and "i < length (p_entries parts)"
  shows "\<exists>sa. r_studentAnswers data = Some sa \<and>
              p_entries parts ! i = prompt_entry_of sa (safe_questions data ! i)"
  using assms
  by (auto simp: build_prompt_def Let_def split: option.splits if_splits)

text \<open>
  Claim C8. Whenever the handler builds a prompt from a request, the title in it is the
  title of the request cut to 200 characters, with three dots after it when it was
  longer; there is one entry for each of the first 20 questions and no more; the question
  text of every entry is the text of its question cut to 1200 characters in the same way,
  so that a question text of 2000 characters becomes its first 1200 characters and the
  three dots; and the answer of every entry is the answer the student gave to that
  question, looked up under the id of the question, cut to 1200 characters in the same
  way, or the words \<open>No answer provided\<close> when there is no answer or an empty one. The
  model is asked with the text rendered from these parts and with nothing else: two
  models that agree on that prompt give the same response of the handler.
\<close>

theorem prompt_fields_are_capped:
  assumes "build_prompt data = Inr parts"
  shows "p_title parts = truncate (r_quizTitle data) 200 \<and>
         length (p_title parts) \<le> 203 \<and>
         (length (text_of (r_quizTitle data)) \<le> 200 \<longrightarrow> p_title parts = text_of (r_quizTitle data)) \<and>
         (200 < length (text_of (r_quizTitle data)) \<longrightarrow>
            p_title parts = take 200 (text_of (r_quizTitle data)) @ ''...'') \<and>
         (\<forall>t. r_quizTitle data = Some t \<and> 200 < length t \<longrightarrow>
            p_title parts = take 200 t @ ''...'') \<and>
         (\<forall>t. r_quizTitle data = Some t \<and> length t \<le> 200 \<longrightarrow> p_title parts = t) \<and>
         (r_quizTitle data = None \<longrightarrow> p_title parts = []) \<and>
         length (p_entries parts) = length (safe_questions data) \<and>
         safe_questions data = take 20 (case r_questions data of None \<Rightarrow> [] | Some qs \<Rightarrow> qs) \<and>
         length (p_entries parts) \<le> 20 \<and>
         (\<forall>i<length (p_entries parts). \<exists>sa. r_studentAnswers data = Some sa \<and>
               e_question (p_entries parts ! i) = truncate (q_text (safe_questions data ! i)) 1200 \<and>
               e_answer (p_entries parts ! i) =
                 truncate (Some (case map_of sa (case q_id (safe_questions data ! i) of None \<Rightarrow> ''undefined'' | Some k \<Rightarrow> k) of
                                   None \<Rightarrow> ''No answer provided''
                                 | Some a \<Rightarrow> if a = [] then ''No answer provided'' else a)) 1200 \<and>
               length (e_question (p_entries parts ! i)) \<le> 1203 \<and>
               length (e_answer (p_entries parts ! i)) \<le> 1203 \<and>
               (\<forall>t. q_text (safe_questions data ! i) = Some t \<and> 1200 < length t \<longrightarrow>
                  e_question (p_entries parts ! i) = take 1200 t @ ''...'') \<and>
               (\<forall>t. q_text (safe_questions data ! i) = Some t \<and> length t \<le> 1200 \<longrightarrow>
                  e_question (p_entries parts ! i) = t) \<and>
               (\<forall>a. map_of sa (case q_id (safe_questions data ! i) of None \<Rightarrow> ''undefined'' | Some k \<Rightarrow> k) = Some a \<and> 1200 < length a \<longrightarrow>
                  e_answer (p_entries parts ! i) = take 1200 a @ ''...'') \<and>
               (\<forall>a. map_of sa (case q_id (safe_questions data ! i) of None \<Rightarrow> ''undefined'' | Some k \<Rightarrow> k) = Some a \<and> a \<noteq> [] \<and> length a \<le> 1200 \<longrightarrow>
                  e_answer (p_entries parts ! i) = a) \<and>
               (map_of sa (case q_id (safe_questions data ! i) of None \<Rightarrow> ''undefined'' | Some k \<Rightarrow> k) = None \<or>
                map_of sa (case q_id (safe_questions data ! i) of None \<Rightarrow> ''undefined'' | Some k \<Rightarrow> k) = Some [] \<longrightarrow>
                  e_answer (p_entries parts ! i) = ''No answer provided'')) \<and>
         (\<forall>env mth g g'.
            (\<forall>modelName. g modelName (render_prompt parts) = g' modelName (render_prompt parts)) \<longrightarrow>
            handler (env\<lparr>generate := g\<rparr>) \<lparr>httpMethod = mth, body = Body data\<rparr> =
            handler (env\<lparr>generate := g'\<rparr>) \<lparr>httpMethod = mth, body = Body data\<rparr>)"
proof -
  have t: "p_title parts = truncate (r_quizTitle data) 200"
    using assms by (auto simp: build_prompt_def Let_def split: option.splits if_splits)
  have t1: "length (p_title parts) \<le> 203"
    unfolding t using truncate_length [of "r_quizTitle data" 200] by simp
  have t2: "length (text_of (r_quizTitle data)) \<le> 200 \<longrightarrow> p_title parts = text_of (r_quizTitle data)"
    unfolding t by (simp add: truncate_eq)
  have t3: "200 < length (text_of (r_quizTitle data)) \<longrightarrow>
      p_title parts = take 200 (text_of (r_quizTitle data)) @ ''...''"
    unfolding t by (simp add: truncate_eq)
  have t4: "\<forall>t. r_quizTitle data = Some t \<and> 200 < length t \<longrightarrow>
      p_title parts = take 200 t @ ''...''"
    unfolding t by (simp add: truncate_Some)
  have t5: "\<forall>t. r_quizTitle data = Some t \<and> length t \<le> 200 \<longrightarrow> p_title parts = t"
    unfolding t by (auto simp: truncate_Some)
  have t6: "r_quizTitle data = None \<longrightarrow> p_title parts = []"
    unfolding t by (simp add: truncate_None)
  have n: "length (p_entries parts) = length (safe_questions data)"
    using assms by (auto simp: build_prompt_def Let_def split: option.splits if_splits)
  have s: "safe_questions data = take 20 (case r_questions data of None \<Rightarrow> [] | Some qs \<Rightarrow> qs)"
    by (simp add: safe_questions_def split: option.splits)
  have n20: "length (p_entries parts) \<le> 20"
    unfolding n by (rule safe_questions_length)
  have e': "\<forall>i<length (p_entries parts). \<exists>sa. r_studentAnswers data = Some sa \<and>
        e_question (p_entries parts ! i) = truncate (q_text (safe_questions data ! i)) 1200 \<and>
        e_answer (p_entries parts ! i) =
          truncate (Some (case map_of sa (case q_id (safe_questions data ! i) of None \<Rightarrow> ''undefined'' | Some k \<Rightarrow> k) of
                            None \<Rightarrow> ''No answer provided''
                          | Some a \<Rightarrow> if a = [] then ''No answer provided'' else a)) 1200 \<and>
        length (e_question (p_entries parts ! i)) \<le> 1203 \<and>
        length (e_answer (p_entries parts ! i)) \<le> 1203 \<and>
        (\<forall>t. q_text (safe_questions data ! i) = Some t \<and> 1200 < length t \<longrightarrow>
           e_question (p_entries parts ! i) = take 1200 t @ ''...'') \<and>
        (\<forall>t. q_text (safe_questions data ! i) = Some t \<and> length t \<le> 1200 \<longrightarrow>
           e_question (p_entries parts ! i) = t) \<and>
        (\<forall>a. map_of sa (case q_id (safe_questions data ! i) of None \<Rightarrow> ''undefined'' | Some k \<Rightarrow> k) = Some a \<and> 1200 < length a \<longrightarrow>
           e_answer (p_entries parts ! i) = take 1200 a @ ''...'') \<and>
        (\<forall>a. map_of sa (case q_id (safe_questions data ! i) of None \<Rightarrow> ''undefined'' | Some k \<Rightarrow> k) = Some a \<and> a \<noteq> [] \<and> length a \<le> 1200 \<longrightarrow>
           e_answer (p_entries parts ! i) = a) \<and>
        (map_of sa (case q_id (safe_questions data ! i) of None \<Rightarrow> ''undefined'' | Some k \<Rightarrow> k) = None \<or>
         map_of sa (case q_id (safe_questions data ! i) of None \<Rightarrow> ''undefined'' | Some k \<Rightarrow> k) = Some [] \<longrightarrow>
           e_answer (p_entries parts ! i) = ''No answer provided'')"
  proof (intro allI impI)
    fix i assume i: "i < length (p_entries parts)"
    from build_prompt_entry [OF assms i] obtain sa where
      sa: "r_studentAnswers data = Some sa"
      and eq: "p_entries parts ! i = prompt_entry_of sa (safe_questions data ! i)" by blast
    have "e_question (p_entries parts ! i) = truncate (q_text (safe_questions data ! i)) 1200 \<and>
        e_answer (p_entries parts ! i) =
          truncate (Some (case map_of sa (case q_id (safe_questions data ! i) of None \<Rightarrow> ''undefined'' | Some k \<Rightarrow> k) of
                            None \<Rightarrow> ''No answer provided''
                          | Some a \<Rightarrow> if a = [] then ''No answer provided'' else a)) 1200 \<and>
        length (e_question (p_entries parts ! i)) \<le> 1203 \<and>
        length (e_answer (p_entries parts ! i)) \<le> 1203 \<and>
        (\<forall>t. q_text (safe_questions data ! i) = Some t \<and> 1200 < length t \<longrightarrow>
           e_question (p_entries parts ! i) = take 1200 t @ ''...'') \<and>
        (\<forall>t. q_text (safe_questions data ! i) = Some t \<and> length t \<le> 1200 \<longrightarrow>
           e_question (p_entries parts ! i) = t) \<and>
        (\<forall>a. map_of sa (case q_id (safe_questions data ! i) of None \<Rightarrow> ''undefined'' | Some k \<Rightarrow> k) = Some a \<and> 1200 < length a \<longrightarrow>
           e_answer (p_entries parts ! i) = take 1200 a @ ''...'') \<and>
        (\<forall>a. map_of sa (case q_id (safe_questions data ! i) of None \<Rightarrow> ''undefined'' | Some k \<Rightarrow> k) = Some a \<and> a \<noteq> [] \<and> length a \<le> 1200 \<longrightarrow>
           e_answer (p_entries parts ! i) = a) \<and>
        (map_of sa (case q_id (safe_questions data ! i) of None \<Rightarrow> ''undefined'' | Some k \<Rightarrow> k) = None \<or>
         map_of sa (case q_id (safe_questions data ! i) of None \<Rightarrow> ''undefined'' | Some k \<Rightarrow> k) = Some [] \<longrightarrow>
           e_answer (p_entries parts ! i) = ''No answer provided'')"
      unfolding eq by (rule prompt_entry_of_exact)
    with sa show "\<exists>sa. r_studentAnswers data = Some sa \<and>
        e_question (p_entries parts ! i) = truncate (q_text (safe_questions data ! i)) 1200 \<and>
        e_answer (p_entries parts ! i) =
          truncate (Some (case map_of sa (case q_id (safe_questions data ! i) of None \<Rightarrow> ''undefined'' | Some k \<Rightarrow> k) of
                            None \<Rightarrow> ''No answer provided''
                          | Some a \<Rightarrow> if a = [] then ''No answer provided'' else a)) 1200 \<and>
        length (e_question (p_entries parts ! i)) \<le> 1203 \<and>
        length (e_answer (p_entries parts ! i)) \<le> 1203 \<and>
        (\<forall>t. q_text (safe_questions data ! i) = Some t \<and> 1200 < length t \<longrightarrow>
           e_question (p_entries parts ! i) = take 1200 t @ ''...'') \<and>
        (\<forall>t. q_text (safe_questions data ! i) = Some t \<and> length t \<le> 1200 \<longrightarrow>
           e_question (p_entries parts ! i) = t) \<and>
        (\<forall>a. map_of sa (case q_id (safe_questions data ! i) of None \<Rightarrow> ''undefined'' | Some k \<Rightarrow> k) = Some a \<and> 1200 < length a \<longrightarrow>
           e_answer (p_entries parts ! i) = take 1200 a @ ''...'') \<and>
        (\<forall>a. map_of sa (case q_id (safe_questions data ! i) of None \<Rightarrow> ''undefined'' | Some k \<Rightarrow> k) = Some a \<and> a \<noteq> [] \<and> length a \<le> 1200 \<longrightarrow>
           e_answer (p_entries parts ! i) = a) \<and>
        (map_of sa (case q_id (safe_questions data ! i) of None \<Rightarrow> ''undefined'' | Some k \<Rightarrow> k) = None \<or>
         map_of sa (case q_id (safe_questions data ! i) of None \<Rightarrow> ''undefined'' | Some k \<Rightarrow> k) = Some [] \<longrightarrow>
           e_answer (p_entries parts ! i) = ''No answer provided'')"
      by blast
  qed
  have h: "handler (env\<lparr>generate := g\<rparr>) \<lparr>httpMethod = mth, body = Body data\<rparr> =
           handler (env\<lparr>generate := g'\<rparr>) \<lparr>httpMethod = mth, body = Body data\<rparr>"
    if "\<forall>modelName. g modelName (render_prompt parts) = g' modelName (render_prompt parts)"
    for env :: handler_env and mth g g'
  proof -
    from that have "(\<lambda>modelName. g modelName (render_prompt parts)) =
        (\<lambda>modelName. g' modelName (render_prompt parts))" by auto
    then show ?thesis using assms
      by (simp add: handler_def modelCandidates_def
            cong: sum.case_cong prod.case_cong option.case_cong parse_result.case_cong if_cong)
  qed
  from t t1 t2 t3 t4 t5 t6 n s n20 e' h show ?thesis by blast
qed

theorem prompt_fields_are_capped_witness:
  "build_prompt capped_request = Inr capped_parts \<and>
   r_quizTitle capped_request = Some (replicate 250 CHR ''T'') \<and>
   p_title capped_parts = replicate 200 CHR ''T'' @ ''...'' \<and>
   length (the (r_questions capped_request)) = 25 \<and> length (p_entries capped_parts) = 20 \<and>
   r_studentAnswers capped_request =
     Some [(''q-1'', replicate 1500 CHR ''y''), (''q-2'', ''4''), (''q-3'', [])] \<and>
   q_id (safe_questions capped_request ! 0) = Some ''q-2'' \<and>
   e_question (p_entries capped_parts ! 0) = ''2 + 2'' \<and>
   e_answer (p_entries capped_parts ! 0) = ''4'' \<and>
   q_id (safe_questions capped_request ! 1) = Some ''q-3'' \<and>
   e_answer (p_entries capped_parts ! 1) = ''No answer provided'' \<and>
   q_id (safe_questions capped_request ! 2) = Some ''q-1'' \<and>
   q_text (safe_questions capped_request ! 2) = Some (replicate 2000 CHR ''x'') \<and>
   e_question (p_entries capped_parts ! 2) = replicate 1200 CHR ''x'' @ ''...'' \<and>
   e_answer (p_entries capped_parts ! 2) = replicate 1200 CHR ''y'' @ ''...''"
proof -
  have b: "build_prompt capped_request = Inr capped_parts"
    by (simp add: build_prompt_def capped_request_def capped_parts_def safe_questions_def
          prompt_entry_of_def truncate_def text_of_def id_text_def or_str_def truthy_def)
  have r: "r_quizTitle capped_request = Some (replicate 250 CHR ''T'')"
    "length (the (r_questions capped_request)) = 25"
    "r_studentAnswers capped_request =
       Some [(''q-1'', replicate 1500 CHR ''y''), (''q-2'', ''4''), (''q-3'', [])]"
    "q_id (safe_questions capped_request ! 0) = Some ''q-2''"
    "q_text (safe_questions capped_request ! 0) = Some ''2 + 2''"
    "q_id (safe_questions capped_request ! 1) = Some ''q-3''"
    "q_id (safe_questions capped_request ! 2) = Some ''q-1''"
    "q_text (safe_questions capped_request ! 2) = Some (replicate 2000 CHR ''x'')"
    by (simp_all add: capped_request_def safe_questions_def nth_Cons' nth_append)
  have l: "length (p_entries capped_parts) = 20"
    by (simp add: capped_parts_def)
  note c = prompt_fields_are_capped [OF b]
  have t: "p_title capped_parts = replicate 200 CHR ''T'' @ ''...''"
    using c r(1) by (simp add: truncate_Some)
  have e0: "e_question (p_entries capped_parts ! 0) = ''2 + 2'' \<and>
            e_answer (p_entries capped_parts ! 0) = ''4''"
    using c l r by (auto simp: truncate_Some)
  have e1: "e_answer (p_entries capped_parts ! 1) = ''No answer provided''"
    using c l r by (auto simp: truncate_Some)
  have e2: "e_question (p_entries capped_parts ! 2) = replicate 1200 CHR ''x'' @ ''...'' \<and>
            e_answer (p_entries capped_parts ! 2) = replicate 1200 CHR ''y'' @ ''...''"
    using c l r by (auto simp: truncate_Some)
  from b r l t e0 e1 e2 show ?thesis by simp
qed

text \<open>
  Claim C9, as the code has it. With the API key configured, a request whose method is
  not POST is answered 405. A POST whose body is not JSON is answered 500: the parse
  error is caught by the one \<^verbatim>\<open>catch\<close> of the handler. Without the API key every
  request is answered 500, before the method is looked at.
\<close>

theorem handler_status_of_invalid_requests:
  "(truthy (GEMINI_API_KEY env) \<and> httpMethod ev \<noteq> ''POST'' \<longrightarrow>
      handler env ev = \<lparr>statusCode = 405, resp_body = PlainText ''Method Not Allowed''\<rparr>) \<and>
   (truthy (GEMINI_API_KEY env) \<and> httpMethod ev = ''POST'' \<and> body ev = BadJson message \<longrightarrow>
      statusCode (handler env ev) = 500) \<and>
   (\<not> truthy (GEMINI_API_KEY env) \<longrightarrow> statusCode (handler env ev) = 500)"
  by (simp add: handler_def grading_error_def)

theorem handler_status_of_invalid_requests_witness:
  "truthy (GEMINI_API_KEY configured_env) \<and> httpMethod get_event \<noteq> ''POST'' \<and>
   statusCode (handler configured_env get_event) = 405 \<and>
   statusCode (handler (configured_env\<lparr>GEMINI_API_KEY := None\<rparr>) get_event) = 500"
proof -
  have k: "truthy (GEMINI_API_KEY configured_env)"
    "\<not> truthy (GEMINI_API_KEY (configured_env\<lparr>GEMINI_API_KEY := None\<rparr>))"
    by (simp_all add: configured_env_def truthy_def)
  have m: "httpMethod get_event \<noteq> ''POST''"
    by (simp add: get_event_def)
  from handler_status_of_invalid_requests [of configured_env get_event]
    handler_status_of_invalid_requests [of "configured_env\<lparr>GEMINI_API_KEY := None\<rparr>" get_event]
    k m show ?thesis by simp
qed

text \<open>
  Claim C9 as stated fails: a POST with a body that is not JSON, sent to a configured
  handler, is answered 500, which is not a 4xx status.
\<close>

theorem malformed_json_is_answered_500:
  "truthy (GEMINI_API_KEY configured_env) \<and> httpMethod bad_json_event = ''POST'' \<and>
   body bad_json_event = BadJson ''Unexpected token'' \<and>
   statusCode (handler configured_env bad_json_event) = 500 \<and>
   \<not> (400 \<le> statusCode (handler configured_env bad_json_event) \<and>
      statusCode (handler configured_env bad_json_event) < 500)"
  by (simp add: handler_def grading_error_def configured_env_def bad_json_event_def truthy_def)

end
